theory Spec2Isabelle
  imports Complex_Main "HOL-Library.Sublist" "HOL-Library.Monad_Syntax"
begin

section \<open>JavaScript values\<close>

text \<open>
  The ingestion endpoint receives the JSON body of a request, and the helper functions of
  the tracking controller test it with JavaScript's dynamic checks (truthiness,
  \<^verbatim>\<open>typeof\<close>, \<^verbatim>\<open>instanceof Date\<close>). The values are modelled as a datatype.
  A number is a finite real, \<^verbatim>\<open>NaN\<close> or an infinity; where the code multiplies, the
  rounding of the product to a double is a function the runtime supplies. A string is a
  sequence of ASCII characters. A \<^verbatim>\<open>Date\<close> holds a time value in milliseconds since the epoch, or is an
  Invalid Date. An object is an association list; a property read takes the first
  binding of the name.
\<close>

datatype jsnumber = Finite real | NaN | PosInfinity | NegInfinity

datatype jsdate = Instant int | InvalidDate

datatype jsvalue =
    JUndefined
  | JNull
  | JBool bool
  | JNum jsnumber
  | JStr string
  | JDate jsdate
  | JArr "jsvalue list"
  | JObj "(string \<times> jsvalue) list"

text \<open>\<^verbatim>\<open>!v\<close> is false exactly for the truthy values.\<close>

fun truthy :: "jsvalue \<Rightarrow> bool" where
  "truthy JUndefined = False"
| "truthy JNull = False"
| "truthy (JBool b) = b"
| "truthy (JNum (Finite x)) = (x \<noteq> 0)"
| "truthy (JNum NaN) = False"
| "truthy (JNum PosInfinity) = True"
| "truthy (JNum NegInfinity) = True"
| "truthy (JStr s) = (s \<noteq> [])"
| "truthy (JDate d) = True"
| "truthy (JArr xs) = True"
| "truthy (JObj kvs) = True"

text \<open>\<^verbatim>\<open>typeof v === 'object'\<close>: objects, arrays, dates and \<^verbatim>\<open>null\<close>.\<close>

fun typeof_object :: "jsvalue \<Rightarrow> bool" where
  "typeof_object JNull = True"
| "typeof_object (JDate d) = True"
| "typeof_object (JArr xs) = True"
| "typeof_object (JObj kvs) = True"
| "typeof_object v = False"

text \<open>
  \<^verbatim>\<open>v.name\<close> for the property names the controller reads. Reading a property of
  \<^verbatim>\<open>null\<close> or \<^verbatim>\<open>undefined\<close> throws a TypeError (\<open>None\<close>); every other value
  without the property gives \<^verbatim>\<open>undefined\<close>.
\<close>

fun get_prop :: "jsvalue \<Rightarrow> string \<Rightarrow> jsvalue option" where
  "get_prop JUndefined k = None"
| "get_prop JNull k = None"
| "get_prop (JObj kvs) k = (case map_of kvs k of None \<Rightarrow> Some JUndefined | Some v \<Rightarrow> Some v)"
| "get_prop v k = Some JUndefined"

text \<open>The same read where the code has already excluded \<^verbatim>\<open>null\<close> and \<^verbatim>\<open>undefined\<close>.\<close>

definition read_prop :: "jsvalue \<Rightarrow> string \<Rightarrow> jsvalue" where
  "read_prop v k = (case get_prop v k of None \<Rightarrow> JUndefined | Some x \<Rightarrow> x)"

text \<open>\<^verbatim>\<open>a || b\<close>.\<close>

definition js_or :: "jsvalue \<Rightarrow> jsvalue \<Rightarrow> jsvalue" where
  "js_or a b = (if truthy a then a else b)"

text \<open>\<^verbatim>\<open>n > m\<close> for a finite \<open>m\<close>.\<close>

fun num_gt :: "jsnumber \<Rightarrow> real \<Rightarrow> bool" where
  "num_gt (Finite x) m = (x > m)"
| "num_gt PosInfinity m = True"
| "num_gt NegInfinity m = False"
| "num_gt NaN m = False"

text \<open>
  \<^verbatim>\<open>new Date(n)\<close> for a number: the time value is the number truncated towards zero,
  and a number beyond 8.64e15 milliseconds on either side of the epoch (or not finite)
  gives an Invalid Date.
\<close>

definition trunc :: "real \<Rightarrow> int" where
  "trunc x = (if x \<ge> 0 then \<lfloor>x\<rfloor> else \<lceil>x\<rceil>)"

definition max_time_value :: real where
  "max_time_value = 8640000000000000"

fun new_Date :: "jsnumber \<Rightarrow> jsdate" where
  "new_Date (Finite x) = (if \<bar>x\<bar> \<le> max_time_value then Instant (trunc x) else InvalidDate)"
| "new_Date n = InvalidDate"

text \<open>
  What the runtime supplies: the clock read by \<^verbatim>\<open>new Date()\<close> (one reading per
  request in this model), the date parser behind \<^verbatim>\<open>new Date(string)\<close> and
  \<^verbatim>\<open>Date.parse\<close> (\<open>None\<close> is \<^verbatim>\<open>NaN\<close>), the decimal text of a number and the text of
  a \<^verbatim>\<open>Date\<close>, and the rounding of a real to the nearest double (an infinity when it
  overflows).
\<close>

record js_env =
  now :: int
  date_parse :: "string \<Rightarrow> int option"
  number_string :: "jsnumber \<Rightarrow> string"
  date_string :: "jsdate \<Rightarrow> string"
  to_double :: "real \<Rightarrow> jsnumber"

text \<open>\<^verbatim>\<open>n * m\<close> for a finite \<open>m\<close>: the exact product, rounded to a double.\<close>

fun num_times :: "js_env \<Rightarrow> jsnumber \<Rightarrow> real \<Rightarrow> jsnumber" where
  "num_times env (Finite x) m = to_double env (x * m)"
| "num_times env PosInfinity m = (if m > 0 then PosInfinity else if m < 0 then NegInfinity else NaN)"
| "num_times env NegInfinity m = (if m > 0 then NegInfinity else if m < 0 then PosInfinity else NaN)"
| "num_times env NaN m = NaN"

text \<open>
  \<^verbatim>\<open>String(v)\<close>; \<open>None\<close> is the TypeError it throws. An object that has a property
  named \<^verbatim>\<open>toString\<close> has it from the JSON text, where no value is callable, and the
  inherited \<^verbatim>\<open>valueOf\<close> returns the object itself: the conversion throws. Any other
  object converts to \<^verbatim>\<open>[object Object]\<close>. An array converts to its elements' texts
  joined by commas, \<^verbatim>\<open>null\<close> and \<^verbatim>\<open>undefined\<close> giving the empty text.
\<close>

fun join_comma :: "string list \<Rightarrow> string" where
  "join_comma [] = []"
| "join_comma [x] = x"
| "join_comma (x # y # zs) = x @ CHR '','' # join_comma (y # zs)"

fun js_String :: "js_env \<Rightarrow> jsvalue \<Rightarrow> string option" where
  "js_String env JUndefined = Some ''undefined''"
| "js_String env JNull = Some ''null''"
| "js_String env (JBool b) = Some (if b then ''true'' else ''false'')"
| "js_String env (JNum n) = Some (number_string env n)"
| "js_String env (JStr s) = Some s"
| "js_String env (JDate d) = Some (date_string env d)"
| "js_String env (JArr xs) =
     map_option join_comma
       (those (map (\<lambda>x. if x = JNull \<or> x = JUndefined then Some [] else js_String env x) xs))"
| "js_String env (JObj kvs) =
     (if map_of kvs ''toString'' = None then Some ''[object Object]'' else None)"

text \<open>\<^verbatim>\<open>s.trim()\<close> and \<^verbatim>\<open>s.substring(0, n)\<close>, on ASCII text.\<close>

definition is_space :: "char \<Rightarrow> bool" where
  "is_space c = (c \<in> set [CHR '' '', CHR 0x09, CHR 0x0A, CHR 0x0B, CHR 0x0C, CHR 0x0D])"

definition trim :: "string \<Rightarrow> string" where
  "trim s = rev (dropWhile is_space (rev (dropWhile is_space s)))"

definition substring0 :: "nat \<Rightarrow> string \<Rightarrow> string" where
  "substring0 n s = take n s"

section \<open>Data model\<close>

text \<open>
  The user snapshot attached to an event at receipt. The geolocation fields are
  whatever the lookup returned (\<^verbatim>\<open>geoInfo.country || 'Unknown'\<close>).
\<close>

record user_info =
  ip :: string
  userAgent :: string
  browser :: string
  os :: string
  device :: string
  country :: jsvalue
  city :: jsvalue
  region :: jsvalue

record page_data =
  url :: string
  title :: string
  referrer :: string

record last_page =
  lp_url :: "string option"
  lp_title :: "string option"

text \<open>
  The event handed to the queue, to \<^verbatim>\<open>Event.create\<close> and to the aggregator
  (\<^verbatim>\<open>eventData\<close>). The tenant is the project's \<^verbatim>\<open>_id\<close>. The opaque \<^verbatim>\<open>data\<close> and
  \<^verbatim>\<open>metadata\<close> fields are not read by any function below and are left out.
\<close>

type_synonym objectId = nat

record event_data =
  ev_projectId :: objectId
  ev_sessionId :: string
  ev_type :: string
  ev_timestamp :: jsdate
  ev_user :: user_info
  ev_page :: "page_data option"

text \<open>
  A document of the Session collection: the paths of \<^verbatim>\<open>sessionSchema\<close> that the
  aggregator writes. \<open>oid\<close> is the document's \<^verbatim>\<open>_id\<close>; the counters under
  \<^verbatim>\<open>events\<close> are the fields \<open>events_clicks\<close> to \<open>events_routes\<close>. The schema
  declares no \<^verbatim>\<open>lastActivity\<close> and no \<^verbatim>\<open>lastEvent\<close>: the model's documents do not
  hold them.
\<close>

record session =
  oid :: objectId
  projectId :: objectId
  sessionId :: string
  startTime :: int
  endTime :: "int option"
  duration :: "int option"
  pageViews :: int
  user :: user_info
  firstPage :: "page_data option"
  lastPage :: "last_page option"
  isBounce :: bool
  events_clicks :: int
  events_scrolls :: int
  events_forms :: int
  events_routes :: int

type_synonym sessions = "session list"

section \<open>Storage layer\<close>

text \<open>
  The update document \<^verbatim>\<open>updateData\<close> that \<^verbatim>\<open>updateSessionData\<close> builds: its
  \<^verbatim>\<open>$set\<close>, \<^verbatim>\<open>$inc\<close> and \<^verbatim>\<open>$setOnInsert\<close> parts, one field per path the code can
  put there (\<open>None\<close>: the path is absent from that part).
\<close>

record update_doc =
  set_lastActivity :: int
  set_lastEvent :: string
  set_lastPage :: "last_page option"
  set_isBounce :: "bool option"
  set_endTime :: "int option"
  inc_pageViews :: "int option"
  inc_clicks :: "int option"
  inc_scrolls :: "int option"
  inc_forms :: "int option"
  inc_routes :: "int option"
  soi_startTime :: int
  soi_user :: user_info
  soi_isBounce :: "bool option"
  soi_firstPage :: "page_data option"

datatype db_error =
    ConflictingUpdateOperators
  | DuplicateKey
  | CastError
  | ValidationError

text \<open>
  The only path an update document can name under two operators is \<^verbatim>\<open>isBounce\<close>
  (\<^verbatim>\<open>$set\<close> and \<^verbatim>\<open>$setOnInsert\<close>). The storage layer is not part of the repository;
  what it does with such a document is a parameter of the model. A MongoDB server
  rejects it (error 40, a path conflict); the other two values let one of the two
  assignments win on insert.
\<close>

datatype conflict_rule = RejectConflict | SetWins | SetOnInsertWins

definition conflicting :: "update_doc \<Rightarrow> bool" where
  "conflicting u = (set_isBounce u \<noteq> None \<and> soi_isBounce u \<noteq> None)"

definition inc_by :: "int option \<Rightarrow> int" where
  "inc_by a = (case a of None \<Rightarrow> 0 | Some n \<Rightarrow> n)"

definition set_or :: "'a option \<Rightarrow> 'a \<Rightarrow> 'a" where
  "set_or a old = (case a of None \<Rightarrow> old | Some v \<Rightarrow> v)"

definition set_or_keep :: "'a option \<Rightarrow> 'a option \<Rightarrow> 'a option" where
  "set_or_keep a old = (case a of None \<Rightarrow> old | Some v \<Rightarrow> Some v)"

text \<open>
  \<^verbatim>\<open>$set\<close> and \<^verbatim>\<open>$inc\<close> applied to a document that exists. The two paths the
  schema does not declare, \<^verbatim>\<open>lastActivity\<close> and \<^verbatim>\<open>lastEvent\<close>, are dropped from the
  update by the schema's strict mode.
\<close>

definition apply_update :: "update_doc \<Rightarrow> session \<Rightarrow> session" where
  "apply_update u s = s
     \<lparr> endTime := set_or_keep (set_endTime u) (endTime s),
       pageViews := pageViews s + inc_by (inc_pageViews u),
       lastPage := set_or_keep (set_lastPage u) (lastPage s),
       isBounce := set_or (set_isBounce u) (isBounce s),
       events_clicks := events_clicks s + inc_by (inc_clicks u),
       events_scrolls := events_scrolls s + inc_by (inc_scrolls u),
       events_forms := events_forms s + inc_by (inc_forms u),
       events_routes := events_routes s + inc_by (inc_routes u) \<rparr>"

text \<open>
  The document an upsert inserts: the filter's fields, \<^verbatim>\<open>$setOnInsert\<close>, \<^verbatim>\<open>$set\<close>,
  \<^verbatim>\<open>$inc\<close> from zero, and the schema's defaults (\<^verbatim>\<open>isBounce: true\<close>, counters 0) for
  the paths the update does not name.
\<close>

definition inserted_isBounce :: "conflict_rule \<Rightarrow> update_doc \<Rightarrow> bool" where
  "inserted_isBounce rule u =
     (case (set_isBounce u, soi_isBounce u) of
        (None, None) \<Rightarrow> True
      | (Some b, None) \<Rightarrow> b
      | (None, Some c) \<Rightarrow> c
      | (Some b, Some c) \<Rightarrow> (if rule = SetOnInsertWins then c else b))"

definition insert_doc :: "conflict_rule \<Rightarrow> objectId \<Rightarrow> objectId \<Rightarrow> string \<Rightarrow> update_doc \<Rightarrow> session" where
  "insert_doc rule i p sid u =
     \<lparr> oid = i, projectId = p, sessionId = sid,
       startTime = soi_startTime u,
       endTime = set_endTime u,
       duration = None,
       pageViews = inc_by (inc_pageViews u),
       user = soi_user u,
       firstPage = soi_firstPage u,
       lastPage = set_lastPage u,
       isBounce = inserted_isBounce rule u,
       events_clicks = inc_by (inc_clicks u),
       events_scrolls = inc_by (inc_scrolls u),
       events_forms = inc_by (inc_forms u),
       events_routes = inc_by (inc_routes u) \<rparr>"

definition matches :: "objectId \<Rightarrow> string \<Rightarrow> session \<Rightarrow> bool" where
  "matches p sid d = (projectId d = p \<and> sessionId d = sid)"

definition find_session :: "objectId \<Rightarrow> string \<Rightarrow> sessions \<Rightarrow> session option" where
  "find_session p sid db = find (matches p sid) db"

fun update_first :: "('a \<Rightarrow> bool) \<Rightarrow> ('a \<Rightarrow> 'a) \<Rightarrow> 'a list \<Rightarrow> 'a list" where
  "update_first P f [] = []"
| "update_first P f (x # xs) = (if P x then f x # xs else x # update_first P f xs)"

definition fresh_oid :: "sessions \<Rightarrow> objectId" where
  "fresh_oid db = Suc (fold max (map oid db) 0)"

text \<open>
  \<^verbatim>\<open>Session.findOneAndUpdate(filter, update, {upsert: true, new: true})\<close> with the filter
  \<^verbatim>\<open>{projectId, sessionId}\<close>. It returns the document after the update. The schema
  declares \<^verbatim>\<open>sessionId\<close> \<^verbatim>\<open>unique\<close> on its own, so an insert whose \<^verbatim>\<open>sessionId\<close> is
  already stored (under another project) fails with a duplicate key error.
\<close>

definition findOneAndUpdate ::
  "conflict_rule \<Rightarrow> objectId \<Rightarrow> string \<Rightarrow> update_doc \<Rightarrow> sessions \<Rightarrow> sessions \<times> (db_error + session)" where
  "findOneAndUpdate rule p sid u db =
     (if rule = RejectConflict \<and> conflicting u then (db, Inl ConflictingUpdateOperators)
      else case find_session p sid db of
        Some s \<Rightarrow> (update_first (matches p sid) (apply_update u) db, Inr (apply_update u s))
      | None \<Rightarrow>
          if sid \<in> set (map sessionId db) then (db, Inl DuplicateKey)
          else (db @ [insert_doc rule (fresh_oid db) p sid u],
                Inr (insert_doc rule (fresh_oid db) p sid u)))"

text \<open>\<^verbatim>\<open>Session.findByIdAndUpdate(id, {$set: {duration: d}})\<close>.\<close>

definition setDuration :: "objectId \<Rightarrow> int \<Rightarrow> sessions \<Rightarrow> sessions" where
  "setDuration i d db = update_first (\<lambda>s. oid s = i) (\<lambda>s. s\<lparr>duration := Some d\<rparr>) db"

section \<open>Aggregator\<close>

text \<open>
  \<^verbatim>\<open>updateSessionData\<close> (the worker's and the controller's copies are the same text),
  on an event whose timestamp is a \<^verbatim>\<open>Date\<close>, as the controller passes it. First the
  update document, from the event alone; \<open>t\<close> is the event's time value.
\<close>

definition updateData_base :: "event_data \<Rightarrow> int \<Rightarrow> update_doc" where
  "updateData_base e t =
     \<lparr> set_lastActivity = t, set_lastEvent = ev_type e,
       set_lastPage = None, set_isBounce = None, set_endTime = None,
       inc_pageViews = None, inc_clicks = None, inc_scrolls = None,
       inc_forms = None, inc_routes = None,
       soi_startTime = t, soi_user = ev_user e, soi_isBounce = Some True,
       soi_firstPage = None \<rparr>"

definition updateData_switch :: "event_data \<Rightarrow> int \<Rightarrow> update_doc \<Rightarrow> update_doc" where
  "updateData_switch e t u =
     (if ev_type e = ''pageview'' then
        u\<lparr> inc_pageViews := Some 1,
           set_lastPage := Some \<lparr> lp_url = map_option url (ev_page e),
                                  lp_title = map_option title (ev_page e) \<rparr>,
           set_isBounce := Some False \<rparr>
      else if ev_type e = ''click'' then
        u\<lparr> inc_clicks := Some 1, set_isBounce := Some False \<rparr>
      else if ev_type e = ''scroll'' then
        u\<lparr> inc_scrolls := Some 1 \<rparr>
      else if ev_type e = ''form'' then
        u\<lparr> inc_forms := Some 1, set_isBounce := Some False \<rparr>
      else if ev_type e = ''route'' then
        u\<lparr> inc_routes := Some 1 \<rparr>
      else if ev_type e = ''unload'' then
        u\<lparr> set_endTime := Some t \<rparr>
      else u)"

definition updateData :: "event_data \<Rightarrow> int \<Rightarrow> update_doc" where
  "updateData e t =
     (let u = updateData_switch e t (updateData_base e t)
      in if ev_type e = ''pageview'' \<and> ev_page e \<noteq> None
         then u\<lparr> soi_firstPage := ev_page e \<rparr> else u)"

text \<open>
  The upsert, then for an \<^verbatim>\<open>unload\<close> event the second write of the duration. An
  Invalid Date cannot be cast to the schema's \<^verbatim>\<open>Date\<close> paths. The test
  \<^verbatim>\<open>session.startTime\<close> is on a \<^verbatim>\<open>Date\<close> object and is always true. The function
  returns the store and either the error thrown or the document as the upsert returned
  it.
\<close>

definition updateSessionData ::
  "conflict_rule \<Rightarrow> event_data \<Rightarrow> sessions \<Rightarrow> sessions \<times> (db_error + session)" where
  "updateSessionData rule e db =
     (case ev_timestamp e of
        InvalidDate \<Rightarrow> (db, Inl CastError)
      | Instant t \<Rightarrow>
          (case findOneAndUpdate rule (ev_projectId e) (ev_sessionId e) (updateData e t) db of
             (db', Inl err) \<Rightarrow> (db', Inl err)
           | (db', Inr s) \<Rightarrow>
               if ev_type e = ''unload''
               then (setDuration (oid s) (max 0 (t - startTime s)) db', Inr s)
               else (db', Inr s)))"

text \<open>
  A sequence of events aggregated one after the other; an aggregation that throws
  leaves the store as it was at the throw.
\<close>

fun aggregate_all :: "conflict_rule \<Rightarrow> event_data list \<Rightarrow> sessions \<Rightarrow> sessions" where
  "aggregate_all rule [] db = db"
| "aggregate_all rule (e # es) db = aggregate_all rule es (fst (updateSessionData rule e db))"

section \<open>Raw events and the older worker\<close>

text \<open>
  \<^verbatim>\<open>Event.create\<close>: the Event schema admits seven types (its \<^verbatim>\<open>enum\<close>), requires
  a \<^verbatim>\<open>timestamp\<close> that casts to a \<^verbatim>\<open>Date\<close> and requires a \<^verbatim>\<open>sessionId\<close>, which
  an empty string is not.
\<close>

definition event_enum :: "string list" where
  "event_enum = [''pageview'', ''click'', ''scroll'', ''form'', ''route'', ''unload'', ''custom'']"

definition Event_create :: "event_data \<Rightarrow> event_data list \<Rightarrow> event_data list \<times> (db_error + unit)" where
  "Event_create e evs =
     (if ev_type e \<notin> set event_enum \<or> ev_timestamp e = InvalidDate \<or> ev_sessionId e = []
      then (evs, Inl ValidationError)
      else (evs @ [e], Inr ()))"

text \<open>
  The job handler of \<^verbatim>\<open>src/worker/worker.js\<close>. Its update document sets no
  \<^verbatim>\<open>isBounce\<close> (the schema default applies on insert); the job data built by the
  controller has no top-level \<^verbatim>\<open>url\<close>, so \<^verbatim>\<open>lastPage\<close> is \<^verbatim>\<open>undefined\<close> and is not
  written; its \<^verbatim>\<open>$inc\<close> of \<^verbatim>\<open>clicks\<close>, \<^verbatim>\<open>scrolls\<close>, \<^verbatim>\<open>forms\<close> and \<^verbatim>\<open>routes\<close> names
  paths the schema does not have. For an \<^verbatim>\<open>unload\<close> event a second write sets
  \<^verbatim>\<open>endTime\<close> and \<^verbatim>\<open>duration\<close>.
\<close>

definition worker_update :: "event_data \<Rightarrow> int \<Rightarrow> update_doc" where
  "worker_update e t =
     \<lparr> set_lastActivity = t, set_lastEvent = ev_type e,
       set_lastPage = None, set_isBounce = None, set_endTime = None,
       inc_pageViews = Some (if ev_type e = ''pageview'' then 1 else 0),
       inc_clicks = None, inc_scrolls = None, inc_forms = None, inc_routes = None,
       soi_startTime = t, soi_user = ev_user e, soi_isBounce = None,
       soi_firstPage = None \<rparr>"

definition setEndAndDuration :: "objectId \<Rightarrow> int \<Rightarrow> int \<Rightarrow> sessions \<Rightarrow> sessions" where
  "setEndAndDuration i t d db =
     update_first (\<lambda>s. oid s = i) (\<lambda>s. s\<lparr>endTime := Some t, duration := Some d\<rparr>) db"

definition worker_job ::
  "conflict_rule \<Rightarrow> event_data \<Rightarrow> event_data list \<times> sessions
     \<Rightarrow> (event_data list \<times> sessions) \<times> (db_error + session)" where
  "worker_job rule e st =
     (case Event_create e (fst st) of
        (evs, Inl err) \<Rightarrow> ((evs, snd st), Inl err)
      | (evs, Inr u) \<Rightarrow>
          (case ev_timestamp e of
             InvalidDate \<Rightarrow> ((evs, snd st), Inl CastError)
           | Instant t \<Rightarrow>
               (case findOneAndUpdate rule (ev_projectId e) (ev_sessionId e) (worker_update e t) (snd st) of
                  (db', Inl err) \<Rightarrow> ((evs, db'), Inl err)
                | (db', Inr s) \<Rightarrow>
                    if ev_type e = ''unload''
                    then ((evs, setEndAndDuration (oid s) t (t - startTime s) db'), Inr s)
                    else ((evs, db'), Inr s))))"

section \<open>Validator\<close>

text \<open>\<^verbatim>\<open>parseTimestamp\<close>. A string goes through the same parser twice, as in the code.\<close>

definition parseTimestamp :: "js_env \<Rightarrow> jsvalue \<Rightarrow> jsdate" where
  "parseTimestamp env timestamp =
     (if \<not> truthy timestamp then Instant (now env)
      else case timestamp of
        JDate d \<Rightarrow> d
      | JNum n \<Rightarrow> new_Date (if num_gt n 1000000000000 then n else num_times env n 1000)
      | JStr s \<Rightarrow>
          (case date_parse env s of
             Some t \<Rightarrow> Instant t
           | None \<Rightarrow>
               (case date_parse env s of
                  None \<Rightarrow> Instant (now env)
                | Some parsed \<Rightarrow> new_Date (Finite (real_of_int parsed))))
      | _ \<Rightarrow> Instant (now env))"

definition validTypes :: "string list" where
  "validTypes = [''pageview'', ''click'', ''scroll'', ''form'', ''route'', ''unload'', ''event'', ''custom'']"

text \<open>\<^verbatim>\<open>validTypes.includes(v)\<close> compares with strict equality.\<close>

definition includes_type :: "jsvalue \<Rightarrow> bool" where
  "includes_type v = (case v of JStr s \<Rightarrow> s \<in> set validTypes | _ \<Rightarrow> False)"

definition to_lower_char :: "char \<Rightarrow> char" where
  "to_lower_char c =
     (if (65::nat) \<le> of_char c \<and> of_char c \<le> (90::nat) then char_of (of_char c + (32::nat)) else c)"

definition toLowerCase :: "string \<Rightarrow> string" where
  "toLowerCase s = map to_lower_char s"

text \<open>The canonical event with its type-specific parts.\<close>

record element_data =
  el_tag :: string
  el_id :: string
  el_class :: string
  el_text :: string

record position_data =
  pos_x :: jsnumber
  pos_y :: jsnumber

record route_data =
  route_from :: string
  route_to :: string

record screen_data =
  scr_width :: jsnumber
  scr_height :: jsnumber

record sanitized_event =
  s_projectId :: string
  s_sessionId :: string
  s_type :: string
  s_timestamp :: jsdate
  s_page :: "page_data option"
  s_element :: "element_data option"
  s_position :: "position_data option"
  s_depth :: "jsnumber option"
  s_route :: "route_data option"
  s_name :: "string option"
  s_properties :: "jsvalue option"
  s_screen :: "screen_data option"
  s_userAgent :: "string option"
  s_language :: "string option"

text \<open>
  \<^verbatim>\<open>String(v).substring(0, n)\<close>, and \<^verbatim>\<open>v ? String(v).substring(0, n) : ''\<close>; \<open>None\<close>
  where the conversion throws.
\<close>

definition str_cut :: "js_env \<Rightarrow> nat \<Rightarrow> jsvalue \<Rightarrow> string option" where
  "str_cut env n v = map_option (substring0 n) (js_String env v)"

definition str_cut_or_empty :: "js_env \<Rightarrow> nat \<Rightarrow> jsvalue \<Rightarrow> string option" where
  "str_cut_or_empty env n v = (if truthy v then str_cut env n v else Some [])"

text \<open>\<^verbatim>\<open>Math.max(0, Math.min(n, hi))\<close>.\<close>

fun clamp :: "real \<Rightarrow> jsnumber \<Rightarrow> jsnumber" where
  "clamp hi (Finite x) = Finite (max 0 (min x hi))"
| "clamp hi PosInfinity = Finite hi"
| "clamp hi NegInfinity = Finite 0"
| "clamp hi NaN = NaN"

definition number_or_zero :: "jsvalue \<Rightarrow> jsnumber" where
  "number_or_zero v = (case v of JNum n \<Rightarrow> n | _ \<Rightarrow> Finite 0)"

definition sanitize_page :: "js_env \<Rightarrow> jsvalue \<Rightarrow> page_data option" where
  "sanitize_page env event = do {
     u \<leftarrow> str_cut env 2048 (read_prop event ''url'');
     t \<leftarrow> str_cut_or_empty env 200 (read_prop event ''title'');
     r \<leftarrow> str_cut_or_empty env 2048 (read_prop event ''referrer'');
     Some \<lparr> url = u, title = t, referrer = r \<rparr> }"

definition sanitize_element :: "js_env \<Rightarrow> jsvalue \<Rightarrow> element_data option" where
  "sanitize_element env el = do {
     tg \<leftarrow> (if truthy (read_prop el ''tag'')
            then map_option toLowerCase (js_String env (read_prop el ''tag'')) else Some []);
     i \<leftarrow> str_cut_or_empty env 100 (read_prop el ''id'');
     c \<leftarrow> str_cut_or_empty env 200 (read_prop el ''class'');
     x \<leftarrow> str_cut_or_empty env 100 (read_prop el ''text'');
     Some \<lparr> el_tag = tg, el_id = i, el_class = c, el_text = x \<rparr> }"

definition sanitize_position :: "jsvalue \<Rightarrow> position_data option" where
  "sanitize_position event =
     (if truthy (read_prop event ''position'') then
        (case (read_prop (read_prop event ''position'') ''x'',
               read_prop (read_prop event ''position'') ''y'') of
           (JNum x, JNum y) \<Rightarrow> Some \<lparr> pos_x = clamp 10000 x, pos_y = clamp 10000 y \<rparr>
         | _ \<Rightarrow> None)
      else None)"

definition sanitize_depth :: "jsvalue \<Rightarrow> jsnumber option" where
  "sanitize_depth event = (case read_prop event ''depth'' of JNum n \<Rightarrow> Some (clamp 100 n) | _ \<Rightarrow> None)"

definition sanitize_route :: "js_env \<Rightarrow> jsvalue \<Rightarrow> route_data option" where
  "sanitize_route env event = do {
     f \<leftarrow> str_cut env 2048 (read_prop event ''from'');
     t \<leftarrow> str_cut env 2048 (read_prop event ''to'');
     Some \<lparr> route_from = f, route_to = t \<rparr> }"

definition sanitize_properties :: "jsvalue \<Rightarrow> jsvalue" where
  "sanitize_properties event =
     (if truthy (read_prop event ''properties'') \<and> typeof_object (read_prop event ''properties'')
      then read_prop event ''properties'' else JObj [])"

definition sanitize_screen :: "jsvalue \<Rightarrow> screen_data option" where
  "sanitize_screen event =
     (if truthy (read_prop event ''screen'')
      then Some \<lparr> scr_width = number_or_zero (read_prop (read_prop event ''screen'') ''width''),
                  scr_height = number_or_zero (read_prop (read_prop event ''screen'') ''height'') \<rparr>
      else None)"

text \<open>
  A part that is filled in only under a condition: \<open>Some None\<close> where the condition
  fails, \<open>None\<close> where filling it in throws.
\<close>

definition when_present :: "bool \<Rightarrow> 'a option \<Rightarrow> 'a option option" where
  "when_present c part = (if c then map_option Some part else Some None)"

text \<open>
  The part of \<^verbatim>\<open>validateEventData\<close> after its last rejection, which builds the
  canonical event; \<open>None\<close> where one of its string conversions throws.
\<close>

definition sanitize :: "js_env \<Rightarrow> jsvalue \<Rightarrow> sanitized_event option" where
  "sanitize env event = do {
     p \<leftarrow> js_String env (read_prop event ''projectId'');
     s \<leftarrow> js_String env (read_prop event ''sessionId'');
     ty \<leftarrow> map_option (\<lambda>x. trim (toLowerCase x)) (js_String env (read_prop event ''type''));
     pg \<leftarrow> when_present (ty = ''pageview'' \<and> truthy (read_prop event ''url''))
             (sanitize_page env event);
     el \<leftarrow> when_present (ty = ''click'' \<and> truthy (read_prop event ''element''))
             (sanitize_element env (read_prop event ''element''));
     rt \<leftarrow> when_present (ty = ''route'' \<and> truthy (read_prop event ''from'')
                          \<and> truthy (read_prop event ''to''))
             (sanitize_route env event);
     nm \<leftarrow> when_present ((ty = ''event'' \<or> ty = ''custom'') \<and> truthy (read_prop event ''name''))
             (str_cut env 100 (read_prop event ''name''));
     ua \<leftarrow> when_present (truthy (read_prop event ''userAgent''))
             (str_cut env 500 (read_prop event ''userAgent''));
     lg \<leftarrow> when_present (truthy (read_prop event ''language''))
             (str_cut env 10 (read_prop event ''language''));
     Some \<lparr> s_projectId = trim p, s_sessionId = trim s, s_type = ty,
            s_timestamp = parseTimestamp env (read_prop event ''timestamp''),
            s_page = pg, s_element = el,
            s_position = (if ty = ''click'' then sanitize_position event else None),
            s_depth = (if ty = ''scroll'' then sanitize_depth event else None),
            s_route = rt, s_name = nm,
            s_properties = (if nm = None then None else Some (sanitize_properties event)),
            s_screen = sanitize_screen event,
            s_userAgent = ua, s_language = lg \<rparr> }"

datatype js_error = TypeError

text \<open>
  \<^verbatim>\<open>validateEventData\<close>: it returns \<^verbatim>\<open>null\<close> for a rejected record (\<open>Inr None\<close>),
  returns the canonical event, or throws.
\<close>

definition validateEventData :: "js_env \<Rightarrow> jsvalue \<Rightarrow> js_error + sanitized_event option" where
  "validateEventData env event =
     (if \<not> truthy event \<or> \<not> typeof_object event then Inr None
      else if \<not> truthy (read_prop event ''projectId'')
            \<or> \<not> truthy (read_prop event ''sessionId'')
            \<or> \<not> truthy (read_prop event ''type'') then Inr None
      else if \<not> includes_type (read_prop event ''type'') then Inr None
      else case sanitize env event of
             None \<Rightarrow> Inl TypeError
           | Some sanitizedEvent \<Rightarrow> Inr (Some sanitizedEvent))"

section \<open>Enricher\<close>

record geo_info =
  g_country :: jsvalue
  g_city :: jsvalue
  g_region :: jsvalue
  g_latitude :: jsvalue
  g_longitude :: jsvalue

definition local_geo :: geo_info where
  "local_geo = \<lparr> g_country = JStr ''Local'', g_city = JStr ''Local'', g_region = JStr ''Local'',
                  g_latitude = JNull, g_longitude = JNull \<rparr>"

definition unknown_geo :: geo_info where
  "unknown_geo = \<lparr> g_country = JStr ''Unknown'', g_city = JStr ''Unknown'',
                    g_region = JStr ''Unknown'', g_latitude = JNull, g_longitude = JNull \<rparr>"

text \<open>
  The outcome of \<^verbatim>\<open>fetch\<close>: it throws, or gives a response with its \<^verbatim>\<open>ok\<close> flag and
  the value of \<^verbatim>\<open>response.json()\<close> (\<open>None\<close> when that throws).
\<close>

datatype fetch_result = FetchThrows | Response bool "jsvalue option"

text \<open>\<^verbatim>\<open>getGeoInfo\<close>; \<open>api\<close> is \<^verbatim>\<open>process.env.IPWHO_API\<close>.\<close>

definition skip_lookup :: "string \<Rightarrow> bool" where
  "skip_lookup a = (a = ''127.0.0.1'' \<or> a = ''::1'' \<or> prefix ''192.168.'' a
                    \<or> prefix ''10.'' a \<or> prefix ''172.'' a)"

definition getGeoInfo :: "(string \<Rightarrow> fetch_result) \<Rightarrow> string \<Rightarrow> string \<Rightarrow> geo_info" where
  "getGeoInfo fetch api a =
     (if skip_lookup a then local_geo
      else case fetch (api @ a) of
        FetchThrows \<Rightarrow> unknown_geo
      | Response ok body \<Rightarrow>
          if \<not> ok then unknown_geo
          else (case body of
                  None \<Rightarrow> unknown_geo
                | Some data \<Rightarrow>
                    (case get_prop data ''country'' of
                       None \<Rightarrow> unknown_geo
                     | Some c \<Rightarrow>
                         \<lparr> g_country = js_or c (JStr ''Unknown''),
                           g_city = js_or (read_prop data ''city'') (JStr ''Unknown''),
                           g_region = js_or (read_prop data ''region'') (JStr ''Unknown''),
                           g_latitude = js_or (read_prop data ''latitude'') JNull,
                           g_longitude = js_or (read_prop data ''longitude'') JNull \<rparr>)))"

text \<open>
  The device classification read from \<^verbatim>\<open>parseUserAgent\<close>'s result: the browser's and
  the system's name and the device type (an empty string where the parser has none).
\<close>

record device_info =
  browser_name :: string
  os_name :: string
  device_type :: string

definition unknown_device :: device_info where
  "unknown_device = \<lparr> browser_name = ''Unknown'', os_name = ''Unknown'', device_type = ''desktop'' \<rparr>"

definition str_or :: "string \<Rightarrow> string \<Rightarrow> string" where
  "str_or a b = (if a \<noteq> [] then a else b)"

definition enrich_user :: "string \<Rightarrow> string \<Rightarrow> device_info \<Rightarrow> geo_info \<Rightarrow> user_info" where
  "enrich_user clientIP ua d g =
     \<lparr> ip = clientIP, userAgent = ua,
       browser = str_or (browser_name d) ''Unknown'',
       os = str_or (os_name d) ''Unknown'',
       device = str_or (device_type d) ''desktop'',
       country = js_or (g_country g) (JStr ''Unknown''),
       city = js_or (g_city g) (JStr ''Unknown''),
       region = js_or (g_region g) (JStr ''Unknown'') \<rparr>"

section \<open>Dispatcher\<close>

text \<open>
  \<^verbatim>\<open>addEvent\<close> of the worker module that owns the queue. A job carries the event and
  the options given to \<^verbatim>\<open>eventQueue.add\<close>. \<open>add_throws\<close> says whether the call to the
  queue throws for the event.
\<close>

record job =
  job_data :: event_data
  job_priority :: nat
  job_delay :: nat

record dispatcher =
  redis_ready :: bool
  eventQueue :: "job list option"

definition priority :: "event_data \<Rightarrow> nat" where
  "priority e = (if ev_type e = ''pageview'' then 10 else 5)"

definition addEvent :: "(event_data \<Rightarrow> bool) \<Rightarrow> dispatcher \<Rightarrow> event_data \<Rightarrow> bool \<times> dispatcher" where
  "addEvent add_throws d e =
     (if redis_ready d \<and> eventQueue d \<noteq> None then
        (case eventQueue d of
           None \<Rightarrow> (False, d)
         | Some q \<Rightarrow>
             if add_throws e then (False, d)
             else (True, d\<lparr> eventQueue :=
                     Some (q @ [\<lparr> job_data = e, job_priority = priority e, job_delay = 0 \<rparr>]) \<rparr>))
      else (False, d))"

section \<open>Ingestion endpoint\<close>

text \<open>
  The request as \<^verbatim>\<open>processEvents\<close> reads it: the parsed body, the addresses
  \<^verbatim>\<open>getClientIP\<close> tries in turn (an empty string where one is absent) and the headers.
\<close>

record request =
  body :: jsvalue
  req_ip :: string
  connection_remoteAddress :: string
  socket_remoteAddress :: string
  headers :: "(string \<times> string) list"

definition header :: "request \<Rightarrow> string \<Rightarrow> string" where
  "header req k = (case map_of (headers req) k of None \<Rightarrow> [] | Some v \<Rightarrow> v)"

definition getClientIP :: "request \<Rightarrow> string" where
  "getClientIP req =
     str_or (req_ip req)
       (str_or (connection_remoteAddress req)
          (str_or (socket_remoteAddress req)
             (str_or (trim (takeWhile (\<lambda>c. c \<noteq> CHR '','') (header req ''x-forwarded-for'')))
                (str_or (header req ''x-real-ip'')
                   (str_or (header req ''x-client-ip'') ''127.0.0.1'')))))"

text \<open>
  The effects of the handler in the order the code performs them: the response, the two
  lookups made once per batch, and for each record its validation, the tenant lookup,
  the hand-over to the queue and the direct writes. Log lines are not modelled.
\<close>

datatype action =
    SendResponse nat string int
  | ParseUserAgent string
  | GeoLookup string
  | Validate jsvalue
  | FindProject string
  | QueueAdd event_data
  | CreateEvent event_data
  | UpdateSession event_data

record server_state =
  st_dispatcher :: dispatcher
  st_events :: "event_data list"
  st_sessions :: sessions
  st_trace :: "action list"

text \<open>
  The collaborators outside the repository: the runtime, the storage layer's conflict
  rule, the user-agent parser (\<open>None\<close>: it throws), \<^verbatim>\<open>fetch\<close> and the lookup's address,
  the tenant lookup \<^verbatim>\<open>Project.findOne({trackingId, isActive: true})\<close> (an error, no
  project, or the project's id) and whether the queue throws on \<^verbatim>\<open>add\<close>.
\<close>

record ingest_env =
  env_js :: js_env
  env_rule :: conflict_rule
  env_ua_parse :: "string \<Rightarrow> device_info option"
  env_fetch :: "string \<Rightarrow> fetch_result"
  env_api :: string
  env_find_project :: "string \<Rightarrow> db_error + objectId option"
  env_add_throws :: "event_data \<Rightarrow> bool"

definition emit :: "action \<Rightarrow> server_state \<Rightarrow> server_state" where
  "emit a st = st\<lparr> st_trace := st_trace st @ [a] \<rparr>"

datatype verdict = Processed | Skipped

text \<open>The direct path taken when the event was not queued.\<close>

definition save_directly :: "ingest_env \<Rightarrow> event_data \<Rightarrow> server_state \<Rightarrow> server_state \<times> verdict" where
  "save_directly env e st =
     (case Event_create e (st_events st) of
        (evs, Inl err) \<Rightarrow> (emit (CreateEvent e) st, Skipped)
      | (evs, Inr u) \<Rightarrow>
          (case updateSessionData (env_rule env) e (st_sessions st) of
             (db, Inl err) \<Rightarrow>
               (emit (UpdateSession e) (emit (CreateEvent e) st)
                  \<lparr> st_events := evs, st_sessions := db \<rparr>, Skipped)
           | (db, Inr s) \<Rightarrow>
               (emit (UpdateSession e) (emit (CreateEvent e) st)
                  \<lparr> st_events := evs, st_sessions := db \<rparr>, Processed)))"

text \<open>
  The body of the loop over the batch, for one raw record. An exception of the validator
  ends in the loop's \<^verbatim>\<open>catch\<close>, which counts the record as skipped.
\<close>

definition process_event ::
  "ingest_env \<Rightarrow> user_info \<Rightarrow> server_state \<Rightarrow> jsvalue \<Rightarrow> server_state \<times> verdict" where
  "process_event env usr st rawEvent =
     (case validateEventData (env_js env) rawEvent of
        Inl err \<Rightarrow> (emit (Validate rawEvent) st, Skipped)
      | Inr None \<Rightarrow> (emit (Validate rawEvent) st, Skipped)
      | Inr (Some sanitized) \<Rightarrow>
          (case env_find_project env (s_projectId sanitized) of
             Inl err \<Rightarrow>
               (emit (FindProject (s_projectId sanitized)) (emit (Validate rawEvent) st), Skipped)
           | Inr None \<Rightarrow>
               (emit (FindProject (s_projectId sanitized)) (emit (Validate rawEvent) st), Skipped)
           | Inr (Some pid) \<Rightarrow>
               (let eventData =
                      \<lparr> ev_projectId = pid, ev_sessionId = s_sessionId sanitized,
                        ev_type = s_type sanitized, ev_timestamp = s_timestamp sanitized,
                        ev_user = usr, ev_page = s_page sanitized \<rparr>;
                    st' = emit (QueueAdd eventData)
                            (emit (FindProject (s_projectId sanitized)) (emit (Validate rawEvent) st))
                in case addEvent (env_add_throws env) (st_dispatcher st') eventData of
                     (True, d) \<Rightarrow> (st'\<lparr> st_dispatcher := d \<rparr>, Processed)
                   | (False, d) \<Rightarrow> save_directly env eventData st')))"

text \<open>The loop, with its two counters \<^verbatim>\<open>processed\<close> and \<^verbatim>\<open>skipped\<close>.\<close>

fun process_loop ::
  "ingest_env \<Rightarrow> user_info \<Rightarrow> jsvalue list \<Rightarrow> server_state \<times> nat \<times> nat \<Rightarrow> server_state \<times> nat \<times> nat" where
  "process_loop env usr [] acc = acc"
| "process_loop env usr (rawEvent # rest) (st, processed, skipped) =
     (case process_event env usr st rawEvent of
        (st', Processed) \<Rightarrow> process_loop env usr rest (st', Suc processed, skipped)
      | (st', Skipped) \<Rightarrow> process_loop env usr rest (st', processed, Suc skipped))"

text \<open>
  \<^verbatim>\<open>processEvents\<close>. It returns the state it leaves and the two counters it logs at the
  end (\<open>None\<close> when it returned before the loop).
\<close>

definition max_batch :: nat where
  "max_batch = 50"

definition processEvents ::
  "ingest_env \<Rightarrow> request \<Rightarrow> server_state \<Rightarrow> server_state \<times> (nat \<times> nat) option" where
  "processEvents env req st =
     (let st1 = emit (SendResponse 202 ''Events received'' (now (env_js env))) st
      in case body req of
        JArr events \<Rightarrow>
          if events = [] then (st1, None)
          else
            (let limitedEvents = take max_batch events;
                 clientIP = getClientIP req;
                 ua = header req ''user-agent'';
                 deviceInfo = (case env_ua_parse env ua of None \<Rightarrow> unknown_device | Some d \<Rightarrow> d);
                 geoInfo = getGeoInfo (env_fetch env) (env_api env) clientIP;
                 st2 = emit (GeoLookup clientIP) (emit (ParseUserAgent ua) st1);
                 r = process_loop env (enrich_user clientIP ua deviceInfo geoInfo) limitedEvents (st2, 0, 0)
             in (fst r, Some (snd r)))
      | _ \<Rightarrow> (st1, None))"

section \<open>Invariant of the Session collection\<close>

text \<open>
  The two unique indexes of the collection: \<^verbatim>\<open>_id\<close>, and \<^verbatim>\<open>sessionId\<close> as the schema
  declares it.
\<close>

definition wf_store :: "sessions \<Rightarrow> bool" where
  "wf_store db = (distinct (map oid db) \<and> distinct (map sessionId db))"

section \<open>The validator's contract in the specification's words\<close>






section \<open>Loopback and private addresses\<close>

text \<open>
  The address ranges the lookup is meant to skip, on the four numbers of a dotted IPv4
  address: the loopback block 127.0.0.0/8 and the private blocks 10.0.0.0/8,
  172.16.0.0/12 and 192.168.0.0/16.
\<close>

definition private_or_loopback :: "nat \<Rightarrow> nat \<Rightarrow> nat \<Rightarrow> nat \<Rightarrow> bool" where
  "private_or_loopback a b c d =
     (a = 127 \<or> a = 10 \<or> (a = 172 \<and> 16 \<le> b \<and> b \<le> 31) \<or> (a = 192 \<and> b = 168))"

section \<open>Order of effects\<close>

text \<open>
  A state extends another when its trace is the other's followed by actions none of
  which sends a response.
\<close>

definition is_response :: "action \<Rightarrow> bool" where
  "is_response a = (case a of SendResponse c m t \<Rightarrow> True | _ \<Rightarrow> False)"

definition extends :: "server_state \<Rightarrow> server_state \<Rightarrow> bool" where
  "extends st st' =
     (\<exists>rest. st_trace st' = st_trace st @ rest \<and> list_all (\<lambda>a. \<not> is_response a) rest)"

section \<open>Sample inputs\<close>

text \<open>Concrete values on which the properties below are evaluated.\<close>

definition sample_user :: user_info where
  "sample_user = \<lparr> ip = ''203.0.113.7'', userAgent = ''Mozilla/5.0'', browser = ''Firefox'',
     os = ''Linux'', device = ''desktop'', country = JStr ''Unknown'', city = JStr ''Unknown'',
     region = JStr ''Unknown'' \<rparr>"

definition sample_event :: "objectId \<Rightarrow> string \<Rightarrow> string \<Rightarrow> int \<Rightarrow> event_data" where
  "sample_event p sid ty t = \<lparr> ev_projectId = p, ev_sessionId = sid, ev_type = ty,
     ev_timestamp = Instant t, ev_user = sample_user, ev_page = None \<rparr>"

definition sample_session :: "objectId \<Rightarrow> objectId \<Rightarrow> string \<Rightarrow> int \<Rightarrow> bool \<Rightarrow> session" where
  "sample_session i p sid t b =
     \<lparr> oid = i, projectId = p, sessionId = sid, startTime = t, endTime = None, duration = None,
       pageViews = 1, user = sample_user, firstPage = None, lastPage = None, isBounce = b,
       events_clicks = 1, events_scrolls = 0, events_forms = 0, events_routes = 0 \<rparr>"

text \<open>
  A runtime whose clock reads 1750000000000 and whose parser knows one date. Its rounding
  is exact, as the rounding to a double is on the integers the samples multiply.
\<close>

definition sample_js_env :: js_env where
  "sample_js_env = \<lparr> now = 1750000000000,
     date_parse = (\<lambda>s. if s = ''2024-01-01T00:00:00.000Z'' then Some 1704067200000 else None),
     number_string = (\<lambda>n. ''0''),
     date_string = (\<lambda>d. ''Invalid Date''),
     to_double = Finite \<rparr>"

definition sample_record :: "string \<Rightarrow> string \<Rightarrow> string \<Rightarrow> jsvalue \<Rightarrow> jsvalue" where
  "sample_record p sid ty ts =
     JObj [(''projectId'', JStr p), (''sessionId'', JStr sid), (''type'', JStr ty), (''timestamp'', ts)]"

definition sample_ingest_env :: ingest_env where
  "sample_ingest_env =
     \<lparr> env_js = sample_js_env, env_rule = RejectConflict,
       env_ua_parse = (\<lambda>ua. Some \<lparr> browser_name = ''Firefox'', os_name = ''Linux'', device_type = [] \<rparr>),
       env_fetch = (\<lambda>u. FetchThrows), env_api = ''https://ipwho.is/'',
       env_find_project = (\<lambda>t. if t = ''trk_1'' then Inr (Some 1) else Inr None),
       env_add_throws = (\<lambda>e. False) \<rparr>"

definition sample_request :: "jsvalue \<Rightarrow> request" where
  "sample_request b =
     \<lparr> body = b, req_ip = ''203.0.113.7'', connection_remoteAddress = [],
       socket_remoteAddress = [], headers = [(''user-agent'', ''Mozilla/5.0'')] \<rparr>"

definition sample_state :: server_state where
  "sample_state =
     \<lparr> st_dispatcher = \<lparr> redis_ready = False, eventQueue = None \<rparr>,
       st_events = [], st_sessions = [], st_trace = [] \<rparr>"



section \<open>Properties of the aggregator\<close>

subsection \<open>Searching an updated collection\<close>

lemma find_update_first:
  assumes "\<And>x. P (f x) = P x" and "find P xs = Some x"
  shows "find P (update_first Q f xs) = Some x \<or> find P (update_first Q f xs) = Some (f x)"
  using assms(2)
proof (induction xs)
  case Nil
  then show ?case by simp
next
  case (Cons a xs)
  then show ?case using assms(1) by (auto split: if_splits)
qed

lemma find_append_Some: "find P xs = Some x \<Longrightarrow> find P (xs @ ys) = Some x"
  by (induction xs) (auto split: if_splits)

lemma find_append_None: "find P xs = None \<Longrightarrow> find P (xs @ ys) = find P ys"
  by (induction xs) (auto split: if_splits)

lemma matches_apply_update: "matches p sid (apply_update u d) = matches p sid d"
  by (simp add: matches_def apply_update_def)

lemma matches_duration: "matches p sid (d\<lparr>duration := x\<rparr>) = matches p sid d"
  by (simp add: matches_def)

subsection \<open>The bounce flag\<close>

lemma set_isBounce_updateData: "set_isBounce (updateData e t) \<noteq> Some True"
  by (simp add: updateData_def updateData_switch_def updateData_base_def Let_def)

lemma soi_isBounce_updateData: "soi_isBounce (updateData e t) = Some True"
  by (simp add: updateData_def updateData_switch_def updateData_base_def Let_def)

lemma pageview_sets_not_bounce:
  "ev_type e = ''pageview'' \<Longrightarrow> set_isBounce (updateData e t) = Some False"
  by (simp add: updateData_def updateData_switch_def updateData_base_def Let_def)

lemma apply_update_keeps_not_bounce:
  "\<not> isBounce s \<Longrightarrow> \<not> isBounce (apply_update (updateData e t) s)"
  using set_isBounce_updateData [of e t]
  by (cases "set_isBounce (updateData e t)") (auto simp: apply_update_def set_or_def)

lemma findOneAndUpdate_keeps_not_bounce:
  assumes "find_session p sid db = Some s" and "\<not> isBounce s"
  shows "\<exists>s'. find_session p sid (fst (findOneAndUpdate rule q qid (updateData e t) db)) = Some s'
              \<and> \<not> isBounce s'"
proof (cases "rule = RejectConflict \<and> conflicting (updateData e t)")
  case True
  then show ?thesis using assms by (simp add: findOneAndUpdate_def)
next
  case False
  show ?thesis
  proof (cases "find_session q qid db")
    case None
    then show ?thesis using False assms
      by (auto simp: findOneAndUpdate_def find_session_def find_append_Some)
  next
    case (Some s0)
    have "find (matches p sid) (update_first (matches q qid) (apply_update (updateData e t)) db) = Some s
        \<or> find (matches p sid) (update_first (matches q qid) (apply_update (updateData e t)) db)
            = Some (apply_update (updateData e t) s)"
      using assms(1) by (intro find_update_first) (simp_all add: matches_apply_update find_session_def)
    then show ?thesis using False Some assms(2) apply_update_keeps_not_bounce [of s e t]
      by (auto simp: findOneAndUpdate_def find_session_def)
  qed
qed

lemma setDuration_keeps_flag:
  assumes "find_session p sid db = Some s"
  shows "\<exists>s'. find_session p sid (setDuration i d db) = Some s' \<and> isBounce s' = isBounce s"
proof -
  have "find (matches p sid) (update_first (\<lambda>s. oid s = i) (\<lambda>s. s\<lparr>duration := Some d\<rparr>) db) = Some s
      \<or> find (matches p sid) (update_first (\<lambda>s. oid s = i) (\<lambda>s. s\<lparr>duration := Some d\<rparr>) db)
          = Some (s\<lparr>duration := Some d\<rparr>)"
    using assms(1) by (intro find_update_first) (simp_all add: matches_duration find_session_def)
  then show ?thesis by (auto simp: setDuration_def find_session_def)
qed

lemma updateSessionData_keeps_not_bounce:
  assumes "find_session p sid db = Some s" and "\<not> isBounce s"
  shows "\<exists>s'. find_session p sid (fst (updateSessionData rule e db)) = Some s' \<and> \<not> isBounce s'"
proof (cases "ev_timestamp e")
  case InvalidDate
  then show ?thesis using assms by (simp add: updateSessionData_def)
next
  case (Instant t)
  obtain db' r where F:
    "findOneAndUpdate rule (ev_projectId e) (ev_sessionId e) (updateData e t) db = (db', r)"
    by (cases "findOneAndUpdate rule (ev_projectId e) (ev_sessionId e) (updateData e t) db")
  from findOneAndUpdate_keeps_not_bounce [OF assms, of rule "ev_projectId e" "ev_sessionId e" e t] F
  obtain s' where S: "find_session p sid db' = Some s'" "\<not> isBounce s'" by auto
  show ?thesis
  proof (cases r)
    case (Inl err)
    then show ?thesis using Instant F S by (simp add: updateSessionData_def)
  next
    case (Inr s1)
    then show ?thesis using Instant F S setDuration_keeps_flag [OF S(1)]
      by (simp add: updateSessionData_def)
  qed
qed

lemma aggregate_all_keeps_not_bounce:
  "find_session p sid db = Some s \<Longrightarrow> \<not> isBounce s \<Longrightarrow>
   \<exists>s'. find_session p sid (aggregate_all rule es db) = Some s' \<and> \<not> isBounce s'"
proof (induction es arbitrary: db s)
  case Nil
  then show ?case by simp
next
  case (Cons e es)
  from updateSessionData_keeps_not_bounce [OF Cons.prems, of rule e]
  obtain s1 where "find_session p sid (fst (updateSessionData rule e db)) = Some s1" "\<not> isBounce s1"
    by auto
  then show ?case using Cons.IH by simp
qed

lemma created_is_bounce:
  assumes "find_session (ev_projectId e) (ev_sessionId e) db = None"
    and "snd (updateSessionData rule e db) = Inr r"
    and "rule = SetWins \<longrightarrow> ev_type e \<notin> set [''pageview'', ''click'', ''form'']"
  shows "\<exists>s'. find_session (ev_projectId e) (ev_sessionId e) (fst (updateSessionData rule e db)) = Some s'
              \<and> isBounce s'"
proof -
  obtain t where T: "ev_timestamp e = Instant t"
    using assms(2) by (cases "ev_timestamp e") (auto simp: updateSessionData_def)
  define u where "u = updateData e t"
  define n where "n = insert_doc rule (fresh_oid db) (ev_projectId e) (ev_sessionId e) u"
  obtain db' where F: "findOneAndUpdate rule (ev_projectId e) (ev_sessionId e) u db = (db', Inr r)"
    using assms(2) T
    by (cases "findOneAndUpdate rule (ev_projectId e) (ev_sessionId e) u db")
       (auto simp: updateSessionData_def u_def split: sum.splits if_splits)
  have C: "\<not> (rule = RejectConflict \<and> conflicting u)"
    using F by (auto simp: findOneAndUpdate_def)
  have E: "db' = db @ [n]" "r = n"
    using F assms(1) C by (auto simp: findOneAndUpdate_def n_def split: if_splits)
  have S: "soi_isBounce u = Some True" "set_isBounce u \<noteq> Some True"
    by (simp_all add: u_def soi_isBounce_updateData set_isBounce_updateData)
  have P: "set_isBounce u = None" if "ev_type e \<notin> set [''pageview'', ''click'', ''form'']"
    using that by (simp add: u_def updateData_def updateData_switch_def updateData_base_def)
  have B: "isBounce n"
  proof (cases "set_isBounce u")
    case None
    then show ?thesis using S(1) by (simp add: n_def insert_doc_def inserted_isBounce_def)
  next
    case (Some b)
    then have "rule \<noteq> RejectConflict" using C S(1) by (auto simp: conflicting_def)
    moreover have "rule \<noteq> SetWins" using assms(3) P Some by auto
    ultimately have "rule = SetOnInsertWins" by (cases rule) auto
    then show ?thesis using Some S(1) by (simp add: n_def insert_doc_def inserted_isBounce_def)
  qed
  have M: "matches (ev_projectId e) (ev_sessionId e) n"
    by (simp add: n_def insert_doc_def matches_def)
  have N: "find_session (ev_projectId e) (ev_sessionId e) (db @ [n]) = Some n"
    using assms(1) M by (simp add: find_session_def find_append_None)
  show ?thesis
  proof (cases "ev_type e = ''unload''")
    case True
    then show ?thesis
      using setDuration_keeps_flag [OF N, of "oid n" "max 0 (t - startTime n)"] B T F E
      by (simp add: updateSessionData_def u_def)
  next
    case False
    then show ?thesis using N B T F E by (simp add: updateSessionData_def u_def)
  qed
qed

text \<open>
  C2. The bounce flag is monotone. Every update document the aggregator builds carries
  \<^verbatim>\<open>isBounce: true\<close> in its \<^verbatim>\<open>$setOnInsert\<close> part and never sets \<^verbatim>\<open>isBounce\<close> to true
  in its \<^verbatim>\<open>$set\<close> part. A session whose flag is false keeps a false flag through every
  sequence of aggregated events, for whatever sessions they are and whatever the storage
  layer does with a conflicting document. A session that an aggregation creates starts
  with the flag true; only where the storage layer lets \<^verbatim>\<open>$set\<close> win on insert does
  this need the creating event to be none of pageview, click and form.
\<close>

theorem isBounce_monotone:
  "soi_isBounce (updateData e t) = Some True
   \<and> set_isBounce (updateData e t) \<noteq> Some True
   \<and> (find_session p sid db = Some s \<and> \<not> isBounce s \<longrightarrow>
        (\<exists>s'. find_session p sid (aggregate_all rule es db) = Some s' \<and> \<not> isBounce s'))
   \<and> (find_session (ev_projectId e) (ev_sessionId e) db = None
        \<and> snd (updateSessionData rule e db) = Inr r
        \<and> (rule = SetWins \<longrightarrow> ev_type e \<notin> set [''pageview'', ''click'', ''form'']) \<longrightarrow>
        (\<exists>s'. find_session (ev_projectId e) (ev_sessionId e) (fst (updateSessionData rule e db)) = Some s'
              \<and> isBounce s'))"
  using soi_isBounce_updateData set_isBounce_updateData aggregate_all_keeps_not_bounce
    created_is_bounce
  by blast

theorem isBounce_monotone_witness:
  "find_session 1 ''S1'' [sample_session 1 1 ''S1'' 1000 False] = Some (sample_session 1 1 ''S1'' 1000 False)
   \<and> \<not> isBounce (sample_session 1 1 ''S1'' 1000 False)
   \<and> (\<exists>s'. find_session 1 ''S1''
              (aggregate_all SetWins
                 [sample_event 1 ''S1'' ''scroll'' 2000, sample_event 2 ''S9'' ''pageview'' 2500,
                  sample_event 1 ''S1'' ''unload'' 3000]
                 [sample_session 1 1 ''S1'' 1000 False]) = Some s'
            \<and> \<not> isBounce s')
   \<and> find_session 2 ''S9'' [sample_session 1 1 ''S1'' 1000 False] = None
   \<and> (\<exists>r. snd (updateSessionData SetWins (sample_event 2 ''S9'' ''scroll'' 2000)
                  [sample_session 1 1 ''S1'' 1000 False]) = Inr r)
   \<and> ev_type (sample_event 2 ''S9'' ''scroll'' 2000) \<notin> set [''pageview'', ''click'', ''form'']
   \<and> (\<exists>s'. find_session 2 ''S9''
              (fst (updateSessionData SetWins (sample_event 2 ''S9'' ''scroll'' 2000)
                      [sample_session 1 1 ''S1'' 1000 False])) = Some s'
            \<and> isBounce s')"
proof -
  obtain r where R: "snd (updateSessionData SetWins (sample_event 2 ''S9'' ''scroll'' 2000)
                  [sample_session 1 1 ''S1'' 1000 False]) = Inr r"
    by (simp add: sample_event_def sample_session_def updateSessionData_def findOneAndUpdate_def
        find_session_def matches_def)
  show ?thesis
    using R isBounce_monotone [of "sample_event 2 ''S9'' ''scroll'' 2000" 2000 1 "''S1''"
      "[sample_session 1 1 ''S1'' 1000 False]" "sample_session 1 1 ''S1'' 1000 False" SetWins
      "[sample_event 1 ''S1'' ''scroll'' 2000, sample_event 2 ''S9'' ''pageview'' 2500,
        sample_event 1 ''S1'' ''unload'' 3000]" r]
    by (simp add: find_session_def matches_def sample_session_def sample_event_def)
qed

text \<open>
  C1. The update document of a pageview sets \<^verbatim>\<open>isBounce: false\<close> whatever the session
  holds, next to \<^verbatim>\<open>isBounce: true\<close> in \<^verbatim>\<open>$setOnInsert\<close>. A lone pageview on an empty
  store leaves no session when the storage layer rejects the conflicting document, and
  a session with the flag false when \<^verbatim>\<open>$set\<close> wins. Under none of the three rules does
  a session whose first pageview follows a scroll end with one pageview and the flag
  true.
\<close>

theorem first_pageview_not_kept_as_bounce:
  "set_isBounce (updateData (sample_event 1 ''S2'' ''pageview'' 500) 500) = Some False
   \<and> find_session 1 ''S2'' (aggregate_all RejectConflict [sample_event 1 ''S2'' ''pageview'' 500] []) = None
   \<and> map_option (\<lambda>s. (pageViews s, isBounce s))
        (find_session 1 ''S2'' (aggregate_all SetWins [sample_event 1 ''S2'' ''pageview'' 500] []))
       = Some (1, False)
   \<and> (\<forall>rule. map_option (\<lambda>s. (pageViews s, isBounce s))
        (find_session 1 ''S2'' (aggregate_all rule
           [sample_event 1 ''S2'' ''scroll'' 400, sample_event 1 ''S2'' ''pageview'' 500] []))
       \<noteq> Some (1, True))"
proof -
  have "map_option (\<lambda>s. (pageViews s, isBounce s))
        (find_session 1 ''S2'' (aggregate_all rule
           [sample_event 1 ''S2'' ''scroll'' 400, sample_event 1 ''S2'' ''pageview'' 500] []))
       \<noteq> Some (1, True)" for rule
    by (cases rule)
       (simp_all add: sample_event_def updateSessionData_def findOneAndUpdate_def find_session_def
          updateData_def updateData_switch_def updateData_base_def conflicting_def matches_def
          insert_doc_def inserted_isBounce_def apply_update_def inc_by_def set_or_def
          set_or_keep_def fresh_oid_def)
  then show ?thesis
    by (simp add: sample_event_def updateSessionData_def findOneAndUpdate_def find_session_def
          updateData_def updateData_switch_def updateData_base_def conflicting_def matches_def
          insert_doc_def inserted_isBounce_def apply_update_def inc_by_def set_or_def
          set_or_keep_def fresh_oid_def)
qed


subsection \<open>Keys and the frame of an aggregation\<close>

lemma map_update_first:
  assumes "\<And>x. g (f x) = g x"
  shows "map g (update_first P f xs) = map g xs"
  using assms by (induction xs) auto

lemma update_first_member:
  "find P xs = Some x \<Longrightarrow> f x \<in> set (update_first P f xs)"
  by (induction xs) (auto split: if_splits)

lemma filter_update_first:
  assumes "\<And>x. x \<in> set xs \<Longrightarrow> Q x \<Longrightarrow> K x \<and> K (f x)"
  shows "filter (\<lambda>d. \<not> K d) (update_first Q f xs) = filter (\<lambda>d. \<not> K d) xs"
  using assms by (induction xs) auto

lemma fold_max_ge: "(a::nat) \<le> fold max xs a"
  by (induction xs arbitrary: a) (auto intro: order_trans [OF max.cobounded2])

lemma fold_max_member: "x \<in> set xs \<Longrightarrow> (x::nat) \<le> fold max xs a"
proof (induction xs arbitrary: a)
  case Nil
  then show ?case by simp
next
  case (Cons y ys)
  show ?case
  proof (cases "x = y")
    case True
    have "y \<le> max y a" by simp
    also have "\<dots> \<le> fold max ys (max y a)" by (rule fold_max_ge)
    finally show ?thesis using True by simp
  next
    case False
    then show ?thesis using Cons by simp
  qed
qed

lemma fresh_oid_new: "fresh_oid db \<notin> set (map oid db)"
proof
  assume "fresh_oid db \<in> set (map oid db)"
  then have "fresh_oid db \<le> fold max (map oid db) 0" by (rule fold_max_member)
  then show False by (simp add: fresh_oid_def)
qed

lemma find_Some_member: "find P xs = Some x \<Longrightarrow> x \<in> set xs \<and> P x"
  by (induction xs) (auto split: if_splits)

lemma find_None_iff2: "find P xs = None \<Longrightarrow> x \<in> set xs \<Longrightarrow> \<not> P x"
  by (induction xs) (auto split: if_splits)

lemma findOneAndUpdate_error:
  "findOneAndUpdate rule p sid u db = (db', Inl err) \<Longrightarrow> db' = db"
  by (auto simp: findOneAndUpdate_def split: if_splits option.splits)

lemma findOneAndUpdate_result:
  assumes "findOneAndUpdate rule p sid u db = (db', Inr s)"
  shows "s \<in> set db' \<and> matches p sid s
        \<and> filter (\<lambda>d. \<not> matches p sid d) db' = filter (\<lambda>d. \<not> matches p sid d) db
        \<and> (wf_store db \<longrightarrow> wf_store db')"
proof (cases "find_session p sid db")
  case None
  have NC: "\<not> (rule = RejectConflict \<and> conflicting u)"
    using assms by (auto simp: findOneAndUpdate_def)
  from None have E: "sid \<notin> set (map sessionId db)"
    "db' = db @ [insert_doc rule (fresh_oid db) p sid u]"
    "s = insert_doc rule (fresh_oid db) p sid u"
    using assms NC by (auto simp: findOneAndUpdate_def split: if_splits)
  have M: "matches p sid s" by (simp add: E(3) matches_def insert_doc_def)
  have O: "oid s = fresh_oid db" "sessionId s = sid" by (simp_all add: E(3) insert_doc_def)
  show ?thesis
    using M O E(1) fresh_oid_new [of db] by (simp add: E(2) wf_store_def E(3) [symmetric])
next
  case (Some s0)
  have NC: "\<not> (rule = RejectConflict \<and> conflicting u)"
    using assms by (auto simp: findOneAndUpdate_def)
  from Some have E: "db' = update_first (matches p sid) (apply_update u) db" "s = apply_update u s0"
    using assms NC by (auto simp: findOneAndUpdate_def split: if_splits)
  have F: "find (matches p sid) db = Some s0" using Some by (simp add: find_session_def)
  have M: "matches p sid s"
    using find_Some_member [OF F] by (simp add: E(2) matches_apply_update)
  have I: "s \<in> set db'" unfolding E using F by (rule update_first_member)
  have FR: "filter (\<lambda>d. \<not> matches p sid d) db' = filter (\<lambda>d. \<not> matches p sid d) db"
    unfolding E(1) by (rule filter_update_first) (simp add: matches_apply_update)
  have "map oid db' = map oid db" "map sessionId db' = map sessionId db"
    unfolding E(1) by (rule map_update_first, simp add: apply_update_def)+
  then have W: "wf_store db \<longrightarrow> wf_store db'" by (simp add: wf_store_def)
  show ?thesis using M I FR W by simp
qed

lemma distinct_oid_unique:
  "distinct (map oid db) \<Longrightarrow> a \<in> set db \<Longrightarrow> b \<in> set db \<Longrightarrow> oid a = oid b \<Longrightarrow> a = b"
  by (meson distinct_map inj_on_def)

lemma setDuration_frame:
  assumes "distinct (map oid db)" and "s \<in> set db" and "matches p sid s"
  shows "filter (\<lambda>d. \<not> matches p sid d) (setDuration (oid s) x db) = filter (\<lambda>d. \<not> matches p sid d) db"
  unfolding setDuration_def
proof (rule filter_update_first)
  fix d assume "d \<in> set db" "oid d = oid s"
  then have "d = s" using assms(1,2) distinct_oid_unique by blast
  then show "matches p sid d \<and> matches p sid (d\<lparr>duration := Some x\<rparr>)"
    using assms(3) by (simp add: matches_def)
qed

lemma setDuration_wf: "wf_store db \<Longrightarrow> wf_store (setDuration i x db)"
proof -
  have "map oid (setDuration i x db) = map oid db" "map sessionId (setDuration i x db) = map sessionId db"
    unfolding setDuration_def by (rule map_update_first, simp)+
  then show "wf_store db \<Longrightarrow> wf_store (setDuration i x db)" by (simp add: wf_store_def)
qed

lemma updateSessionData_wf: "wf_store db \<Longrightarrow> wf_store (fst (updateSessionData rule e db))"
  by (auto simp: updateSessionData_def setDuration_wf
      dest: findOneAndUpdate_result findOneAndUpdate_error
      split: jsdate.splits prod.splits sum.splits)

lemma updateSessionData_frame:
  assumes "wf_store db"
  shows "filter (\<lambda>d. \<not> matches (ev_projectId e) (ev_sessionId e) d) (fst (updateSessionData rule e db))
       = filter (\<lambda>d. \<not> matches (ev_projectId e) (ev_sessionId e) d) db"
proof (cases "ev_timestamp e")
  case InvalidDate
  then show ?thesis by (simp add: updateSessionData_def)
next
  case (Instant t)
  obtain db' r where F:
    "findOneAndUpdate rule (ev_projectId e) (ev_sessionId e) (updateData e t) db = (db', r)"
    by (cases "findOneAndUpdate rule (ev_projectId e) (ev_sessionId e) (updateData e t) db")
  show ?thesis
  proof (cases r)
    case (Inl err)
    then show ?thesis using Instant F findOneAndUpdate_error [OF F [unfolded Inl]]
      by (simp add: updateSessionData_def)
  next
    case (Inr s)
    note R = findOneAndUpdate_result [OF F [unfolded Inr]]
    have D: "distinct (map oid db')" using R assms by (simp add: wf_store_def)
    have "s \<in> set db'" "matches (ev_projectId e) (ev_sessionId e) s" using R by simp_all
    from setDuration_frame [OF D this] R Instant F Inr show ?thesis
      by (simp add: updateSessionData_def)
  qed
qed

lemma aggregate_all_wf: "wf_store db \<Longrightarrow> wf_store (aggregate_all rule es db)"
  by (induction es arbitrary: db) (simp_all add: updateSessionData_wf)

lemma second_tenant_rejected:
  assumes "wf_store db" and "d \<in> set db" and "sessionId d = ev_sessionId e"
    and "projectId d \<noteq> ev_projectId e"
  shows "fst (updateSessionData rule e db) = db \<and> (\<exists>err. snd (updateSessionData rule e db) = Inl err)"
proof -
  have "\<not> matches (ev_projectId e) (ev_sessionId e) x" if "x \<in> set db" for x
  proof
    assume "matches (ev_projectId e) (ev_sessionId e) x"
    then have "sessionId x = sessionId d" "projectId x \<noteq> projectId d"
      using assms(3,4) by (simp_all add: matches_def)
    moreover have "inj_on sessionId (set db)"
      using assms(1) by (simp add: wf_store_def distinct_map)
    ultimately show False using that assms(2) by (auto dest: inj_onD)
  qed
  then have "find_session (ev_projectId e) (ev_sessionId e) db = None"
    by (simp add: find_session_def find_None_iff)
  moreover have "ev_sessionId e \<in> set (map sessionId db)"
    using assms(2,3) by force
  ultimately show ?thesis
    by (simp add: updateSessionData_def findOneAndUpdate_def split: jsdate.splits)
qed

text \<open>
  C9. Sessions are addressed by the pair of project and session id, and an aggregation
  touches only the records of its pair: the records of every other pair are the same
  before and after it. The store keeps its two unique indexes through every sequence of
  aggregations, so \<^verbatim>\<open>sessionId\<close> alone identifies a record. An event whose session id
  is already stored under another project therefore fails and changes nothing.
\<close>

theorem sessions_addressed_by_pair_sessionId_unique:
  "(wf_store db \<longrightarrow>
      filter (\<lambda>d. \<not> matches (ev_projectId e) (ev_sessionId e) d) (fst (updateSessionData rule e db))
        = filter (\<lambda>d. \<not> matches (ev_projectId e) (ev_sessionId e) d) db)
   \<and> (wf_store db \<longrightarrow> wf_store (aggregate_all rule es db))
   \<and> (wf_store db \<and> d \<in> set db \<and> sessionId d = ev_sessionId e \<and> projectId d \<noteq> ev_projectId e \<longrightarrow>
        fst (updateSessionData rule e db) = db \<and> (\<exists>err. snd (updateSessionData rule e db) = Inl err))"
  using updateSessionData_frame aggregate_all_wf second_tenant_rejected by blast

theorem sessions_addressed_by_pair_sessionId_unique_witness:
  "wf_store [sample_session 1 1 ''S'' 1000 True]
   \<and> filter (\<lambda>d. \<not> matches 2 ''S'' d)
        (fst (updateSessionData SetWins (sample_event 2 ''S'' ''scroll'' 2000)
                [sample_session 1 1 ''S'' 1000 True]))
      = filter (\<lambda>d. \<not> matches 2 ''S'' d) [sample_session 1 1 ''S'' 1000 True]
   \<and> wf_store (aggregate_all SetWins [sample_event 1 ''S'' ''click'' 1500, sample_event 3 ''T'' ''scroll'' 1600]
                  [sample_session 1 1 ''S'' 1000 True])
   \<and> sample_session 1 1 ''S'' 1000 True \<in> set [sample_session 1 1 ''S'' 1000 True]
   \<and> sessionId (sample_session 1 1 ''S'' 1000 True) = ev_sessionId (sample_event 2 ''S'' ''scroll'' 2000)
   \<and> projectId (sample_session 1 1 ''S'' 1000 True) \<noteq> ev_projectId (sample_event 2 ''S'' ''scroll'' 2000)
   \<and> fst (updateSessionData SetWins (sample_event 2 ''S'' ''scroll'' 2000)
             [sample_session 1 1 ''S'' 1000 True]) = [sample_session 1 1 ''S'' 1000 True]
   \<and> (\<exists>err. snd (updateSessionData SetWins (sample_event 2 ''S'' ''scroll'' 2000)
                    [sample_session 1 1 ''S'' 1000 True]) = Inl err)"
  using sessions_addressed_by_pair_sessionId_unique
      [of "[sample_session 1 1 ''S'' 1000 True]" "sample_event 2 ''S'' ''scroll'' 2000" SetWins
          "[sample_event 1 ''S'' ''click'' 1500, sample_event 3 ''T'' ''scroll'' 1600]"
          "sample_session 1 1 ''S'' 1000 True"]
  by (simp add: wf_store_def sample_session_def sample_event_def matches_def)

text \<open>
  Two tenants with the same session id: after tenant 1's event for session
  \<^verbatim>\<open>S\<close>, tenant 2's event for session \<^verbatim>\<open>S\<close> fails with a duplicate key and tenant 2
  holds no session record.
\<close>

theorem second_tenant_same_sessionId_counterexample:
  "snd (updateSessionData RejectConflict (sample_event 2 ''S'' ''scroll'' 2000)
          (aggregate_all RejectConflict [sample_event 1 ''S'' ''scroll'' 1000] [])) = Inl DuplicateKey
   \<and> find_session 2 ''S''
        (aggregate_all RejectConflict
           [sample_event 1 ''S'' ''scroll'' 1000, sample_event 2 ''S'' ''scroll'' 2000] []) = None
   \<and> snd (updateSessionData SetWins (sample_event 2 ''S'' ''scroll'' 2000)
          (aggregate_all SetWins [sample_event 1 ''S'' ''scroll'' 1000] [])) = Inl DuplicateKey
   \<and> find_session 2 ''S''
        (aggregate_all SetWins
           [sample_event 1 ''S'' ''scroll'' 1000, sample_event 2 ''S'' ''scroll'' 2000] []) = None
   \<and> snd (updateSessionData SetOnInsertWins (sample_event 2 ''S'' ''scroll'' 2000)
          (aggregate_all SetOnInsertWins [sample_event 1 ''S'' ''scroll'' 1000] [])) = Inl DuplicateKey
   \<and> find_session 2 ''S''
        (aggregate_all SetOnInsertWins
           [sample_event 1 ''S'' ''scroll'' 1000, sample_event 2 ''S'' ''scroll'' 2000] []) = None"
  by (simp add: sample_event_def updateSessionData_def findOneAndUpdate_def find_session_def
        updateData_def updateData_switch_def updateData_base_def conflicting_def matches_def
        insert_doc_def inserted_isBounce_def inc_by_def fresh_oid_def)

subsection \<open>The duration of a session\<close>

lemma find_update_by_oid:
  assumes "\<And>y. P (g y) = P y"
  shows "distinct (map oid xs) \<Longrightarrow> find P xs = Some x \<Longrightarrow>
         find P (update_first (\<lambda>d. oid d = oid x) g xs) = Some (g x)"
proof (induction xs)
  case Nil
  then show ?case by simp
next
  case (Cons a xs)
  show ?case
  proof (cases "P a")
    case True
    then show ?thesis using Cons.prems assms by simp
  next
    case False
    then have F: "find P xs = Some x" using Cons.prems by simp
    then have "x \<in> set xs" using find_Some_member by fastforce
    then have "oid a \<noteq> oid x" using Cons.prems(1) by force
    then show ?thesis using False F Cons by simp
  qed
qed

lemma findOneAndUpdate_found:
  assumes "findOneAndUpdate rule p sid u db = (db', Inr s)"
  shows "find_session p sid db' = Some s"
proof (cases "find_session p sid db")
  case None
  then have E: "db' = db @ [insert_doc rule (fresh_oid db) p sid u]"
    "s = insert_doc rule (fresh_oid db) p sid u"
    using assms by (auto simp: findOneAndUpdate_def split: if_splits)
  have "matches p sid s" by (simp add: E(2) matches_def insert_doc_def)
  then show ?thesis using None by (simp add: E find_session_def find_append_None)
next
  case (Some s0)
  then have E: "db' = update_first (matches p sid) (apply_update u) db" "s = apply_update u s0"
    using assms by (auto simp: findOneAndUpdate_def split: if_splits)
  have "find (matches p sid) (update_first (matches p sid) (apply_update u) db) = Some (apply_update u s0)"
    using Some unfolding find_session_def
    by (induction db) (auto simp: matches_apply_update split: if_splits)
  then show ?thesis by (simp add: E find_session_def)
qed

lemma endTime_of_unload:
  assumes "findOneAndUpdate rule p sid (updateData e t) db = (db', Inr s)" and "ev_type e = ''unload''"
  shows "endTime s = Some t"
  using assms
  by (auto simp: findOneAndUpdate_def updateData_def updateData_switch_def updateData_base_def
      apply_update_def insert_doc_def set_or_keep_def split: if_splits option.splits)

text \<open>
  In \<^verbatim>\<open>updateSessionData\<close> an \<^verbatim>\<open>unload\<close> event that is aggregated leaves its session
  with the event's time as \<^verbatim>\<open>endTime\<close> and with the clamped difference as
  \<^verbatim>\<open>duration\<close>.
\<close>

lemma updateSessionData_unload_duration:
  assumes "wf_store db" and "ev_type e = ''unload''" and "ev_timestamp e = Instant t"
    and "snd (updateSessionData rule e db) = Inr s"
  shows "\<exists>s'. find_session (ev_projectId e) (ev_sessionId e) (fst (updateSessionData rule e db)) = Some s'
          \<and> endTime s' = Some t \<and> duration s' = Some (max 0 (t - startTime s'))"
proof -
  obtain db' r where F:
    "findOneAndUpdate rule (ev_projectId e) (ev_sessionId e) (updateData e t) db = (db', r)"
    by (cases "findOneAndUpdate rule (ev_projectId e) (ev_sessionId e) (updateData e t) db")
  have R: "r = Inr s" using assms(2,3,4) F by (cases r) (simp_all add: updateSessionData_def)
  note F' = F [unfolded R]
  have D: "distinct (map oid db')"
    using findOneAndUpdate_result [OF F'] assms(1) by (simp add: wf_store_def)
  have "find (matches (ev_projectId e) (ev_sessionId e)) db' = Some s"
    using findOneAndUpdate_found [OF F'] by (simp add: find_session_def)
  from find_update_by_oid [OF _ D this, of "\<lambda>d. d\<lparr>duration := Some (max 0 (t - startTime s))\<rparr>"]
  have "find_session (ev_projectId e) (ev_sessionId e) (setDuration (oid s) (max 0 (t - startTime s)) db')
        = Some (s\<lparr>duration := Some (max 0 (t - startTime s))\<rparr>)"
    by (simp add: matches_def find_session_def setDuration_def)
  then show ?thesis
    using assms(2,3) F' endTime_of_unload [OF F' assms(2)] by (simp add: updateSessionData_def)
qed

text \<open>
  C3. The job handler of \<^verbatim>\<open>src/worker/worker.js\<close> stores the difference of the two
  times as it is. A session that started at 5000 and receives an \<^verbatim>\<open>unload\<close> event
  stamped 1000 is left with the duration -4000 by the handler, and with the duration 0 by
  the controller's \<^verbatim>\<open>updateSessionData\<close>.
\<close>

theorem worker_unload_duration_not_clamped:
  "(\<forall>rule. map_option duration
       (find_session 1 ''S3''
          (snd (fst (worker_job rule (sample_event 1 ''S3'' ''unload'' 1000)
             (fst (worker_job rule (sample_event 1 ''S3'' ''scroll'' 5000) ([], [])))))))
      = Some (Some (- 4000)))
   \<and> (\<forall>rule. map_option duration
       (find_session 1 ''S3''
          (aggregate_all rule
             [sample_event 1 ''S3'' ''scroll'' 5000, sample_event 1 ''S3'' ''unload'' 1000] []))
      = Some (Some 0))"
  by (simp add: worker_job_def Event_create_def event_enum_def sample_event_def findOneAndUpdate_def
      find_session_def worker_update_def conflicting_def matches_def insert_doc_def
      inserted_isBounce_def apply_update_def inc_by_def set_or_def set_or_keep_def fresh_oid_def
      setEndAndDuration_def updateSessionData_def updateData_def updateData_switch_def
      updateData_base_def setDuration_def)

section \<open>Properties of the validator\<close>





subsection \<open>Where the string conversion throws\<close>















text \<open>
  A record whose \<^verbatim>\<open>projectId\<close> is the object \<^verbatim>\<open>{"toString": null}\<close> passes every
  test of the validator, which then throws on the conversion of that field; the loop of
  the handler counts the record as skipped.
\<close>

lemma validator_throws_on_toString:
  "validateEventData sample_js_env
     (JObj [(''projectId'', JObj [(''toString'', JNull)]), (''sessionId'', JStr ''S1''),
            (''type'', JStr ''scroll'')]) = Inl TypeError
   \<and> snd (processEvents sample_ingest_env
       (sample_request (JArr [JObj [(''projectId'', JObj [(''toString'', JNull)]),
                                    (''sessionId'', JStr ''S1''), (''type'', JStr ''scroll'')]]))
       sample_state) = Some (0, 1)"
  by (simp add: validateEventData_def read_prop_def includes_type_def validTypes_def sanitize_def
      processEvents_def max_batch_def sample_request_def process_event_def Let_def
      sample_ingest_env_def)

subsection \<open>Timestamps\<close>

lemma parseTimestamp_valid_unless:
  "(\<forall>n. w \<noteq> JNum n) \<and> w \<noteq> JDate InvalidDate \<longrightarrow> (\<exists>i. parseTimestamp env w = Instant i)"
proof (cases w)
  case (JDate d)
  then show ?thesis by (cases d) (simp_all add: parseTimestamp_def)
qed (auto simp: parseTimestamp_def split: option.splits)

lemma parseTimestamp_string_falls_back:
  "date_parse env s = None \<Longrightarrow> parseTimestamp env (JStr s) = Instant (now env)"
  by (simp add: parseTimestamp_def)

lemma parseTimestamp_large_number:
  "1000000000000 < z \<Longrightarrow>
   (parseTimestamp env (JNum (Finite z)) = InvalidDate) = (8640000000000000 < z)"
  by (auto simp: parseTimestamp_def max_time_value_def abs_if)

lemma validator_ignores_timestamp:
  "(validateEventData env (JObj ((''timestamp'', a) # kvs)) = Inr None)
     = (validateEventData env (JObj ((''timestamp'', b) # kvs)) = Inr None)"
  by (auto simp: validateEventData_def read_prop_def split: option.splits)

text \<open>
  C4. The number 1e16 is a timestamp beyond the range of a \<^verbatim>\<open>Date\<close>. The number branch
  of the normalisation returns the Invalid Date that \<^verbatim>\<open>new Date\<close> gives for it, where
  the string branch tests its result and falls back to the ingestion time. On the direct
  path the record is then skipped, where the same record stamped 1700000000 is processed.
  The number 0 gives the ingestion time, not the epoch.
\<close>

theorem out_of_range_timestamp_not_normalised:
  "parseTimestamp sample_js_env (JNum (Finite 10000000000000000)) = InvalidDate
   \<and> parseTimestamp sample_js_env (JStr ''yesterday'') = Instant 1750000000000
   \<and> parseTimestamp sample_js_env (JNum (Finite 1700000000)) = Instant 1700000000000
   \<and> parseTimestamp sample_js_env (JNum (Finite 0)) = Instant 1750000000000
   \<and> snd (processEvents sample_ingest_env
          (sample_request (JArr [sample_record ''trk_1'' ''S1'' ''scroll'' (JNum (Finite 10000000000000000))]))
          sample_state) = Some (0, 1)
   \<and> snd (processEvents sample_ingest_env
          (sample_request (JArr [sample_record ''trk_1'' ''S1'' ''scroll'' (JNum (Finite 1700000000))]))
          sample_state) = Some (1, 0)"
  by (simp add: processEvents_def Let_def max_batch_def sample_request_def sample_state_def
      sample_ingest_env_def sample_js_env_def sample_record_def process_event_def
      validateEventData_def read_prop_def includes_type_def validTypes_def trim_def
      toLowerCase_def to_lower_char_def is_space_def parseTimestamp_def max_time_value_def trunc_def
      sanitize_def when_present_def sanitize_screen_def sanitize_depth_def
      addEvent_def save_directly_def Event_create_def event_enum_def emit_def getClientIP_def
      header_def str_or_def enrich_user_def getGeoInfo_def skip_lookup_def unknown_geo_def js_or_def
      updateSessionData_def findOneAndUpdate_def find_session_def
      updateData_def updateData_switch_def updateData_base_def conflicting_def matches_def
      insert_doc_def inserted_isBounce_def inc_by_def fresh_oid_def)


section \<open>Properties of the ingestion endpoint\<close>

lemma extends_refl: "extends st st"
  by (simp add: extends_def)

lemma extends_trans: "extends a b \<Longrightarrow> extends b c \<Longrightarrow> extends a c"
  by (auto simp: extends_def)

lemma extends_emit: "\<not> is_response a \<Longrightarrow> extends st (emit a st)"
  by (simp add: extends_def emit_def)

lemma extends_same_trace: "st_trace st' = st_trace st \<Longrightarrow> extends st st'"
  by (simp add: extends_def)

lemma extends_save_directly: "extends st (fst (save_directly env e st))"
  by (auto simp: save_directly_def extends_def emit_def is_response_def split: prod.splits sum.splits)

lemma extends_process_event: "extends st (fst (process_event env usr st raw))"
proof -
  have A: "extends st (emit (QueueAdd e) (emit (FindProject t) (emit (Validate raw) st)))" for e t
    by (simp add: extends_def emit_def is_response_def)
  have B: "extends st (fst (save_directly env e (emit (QueueAdd e) (emit (FindProject t) (emit (Validate raw) st)))))"
    for e t
    using A extends_save_directly extends_trans by blast
  show ?thesis
    using A B
    by (auto simp: process_event_def Let_def extends_def emit_def is_response_def
        split: option.splits sum.splits prod.splits bool.splits)
qed

lemma process_loop_counts:
  "process_loop env usr evs (st, p, s) = (st', p', s') \<Longrightarrow>
   p' + s' = p + s + length evs \<and> extends st st'"
proof (induction evs arbitrary: st p s)
  case Nil
  then show ?case by (simp add: extends_refl)
next
  case (Cons raw evs)
  obtain st1 v where E: "process_event env usr st raw = (st1, v)"
    by (cases "process_event env usr st raw")
  have X: "extends st st1" using extends_process_event [of st env usr raw] E by simp
  show ?case
  proof (cases v)
    case Processed
    then have "process_loop env usr evs (st1, Suc p, s) = (st', p', s')"
      using Cons.prems E by simp
    from Cons.IH [OF this] X show ?thesis by (auto intro: extends_trans)
  next
    case Skipped
    then have "process_loop env usr evs (st1, p, Suc s) = (st', p', s')"
      using Cons.prems E by simp
    from Cons.IH [OF this] X show ?thesis by (auto intro: extends_trans)
  qed
qed

lemma processEvents_ack_first:
  "\<exists>rest. st_trace (fst (processEvents env req st))
      = st_trace st @ SendResponse 202 ''Events received'' (now (env_js env)) # rest
      \<and> list_all (\<lambda>a. \<not> is_response a) rest"
proof -
  let ?st1 = "emit (SendResponse 202 ''Events received'' (now (env_js env))) st"
  have "extends ?st1 (fst (processEvents env req st))"
  proof (cases "\<exists>evs. body req = JArr evs \<and> evs \<noteq> []")
    case False
    then have "processEvents env req st = (?st1, None)"
      by (cases "body req") (auto simp: processEvents_def Let_def)
    then show ?thesis by (simp add: extends_refl)
  next
    case True
    then obtain evs where B: "body req = JArr evs" "evs \<noteq> []" by auto
    let ?st2 = "emit (GeoLookup (getClientIP req)) (emit (ParseUserAgent (header req ''user-agent'')) ?st1)"
    have A: "extends ?st1 ?st2" by (simp add: extends_def emit_def is_response_def)
    obtain usr where U: "fst (processEvents env req st)
        = fst (process_loop env usr (take max_batch evs) (?st2, 0, 0))"
      using B by (simp add: processEvents_def Let_def)
    obtain st' p' s' where L: "process_loop env usr (take max_batch evs) (?st2, 0, 0) = (st', p', s')"
      by (cases "process_loop env usr (take max_batch evs) (?st2, 0, 0)") auto
    from process_loop_counts [OF L] A U L show ?thesis by (auto intro: extends_trans)
  qed
  then show ?thesis by (auto simp: extends_def emit_def)
qed

lemma processEvents_discards:
  "(\<forall>evs. body req \<noteq> JArr evs) \<or> body req = JArr [] \<Longrightarrow>
   processEvents env req st = (emit (SendResponse 202 ''Events received'' (now (env_js env))) st, None)"
  by (cases "body req") (auto simp: processEvents_def Let_def)

lemma processEvents_truncates:
  assumes "50 < length evs"
  shows "processEvents env (req\<lparr>body := JArr evs\<rparr>) st
           = processEvents env (req\<lparr>body := JArr (take 50 evs)\<rparr>) st
       \<and> (\<exists>p s. snd (processEvents env (req\<lparr>body := JArr evs\<rparr>) st) = Some (p, s) \<and> p + s = 50)"
proof -
  have N: "evs \<noteq> []" "take 50 evs \<noteq> []" using assms by auto
  have E: "processEvents env (req\<lparr>body := JArr evs\<rparr>) st
           = processEvents env (req\<lparr>body := JArr (take 50 evs)\<rparr>) st"
    using N by (simp add: processEvents_def Let_def max_batch_def getClientIP_def header_def)
  let ?usr = "enrich_user (getClientIP req) (header req ''user-agent'')
       (case env_ua_parse env (header req ''user-agent'') of None \<Rightarrow> unknown_device | Some d \<Rightarrow> d)
       (getGeoInfo (env_fetch env) (env_api env) (getClientIP req))"
  let ?st2 = "emit (GeoLookup (getClientIP req)) (emit (ParseUserAgent (header req ''user-agent''))
       (emit (SendResponse 202 ''Events received'' (now (env_js env))) st))"
  obtain st' p' s' where L: "process_loop env ?usr (take 50 evs) (?st2, 0, 0) = (st', p', s')"
    by (cases "process_loop env ?usr (take 50 evs) (?st2, 0, 0)") auto
  have "snd (processEvents env (req\<lparr>body := JArr evs\<rparr>) st) = Some (p', s')"
    using N L by (simp add: processEvents_def Let_def max_batch_def getClientIP_def header_def)
  moreover have "p' + s' = 50" using process_loop_counts [OF L] assms by simp
  ultimately show ?thesis using E by simp
qed

lemma process_loop_nulls:
  "process_loop env usr (replicate n JNull) (st, p, s)
     = (st\<lparr> st_trace := st_trace st @ replicate n (Validate JNull) \<rparr>, p, s + n)"
proof (induction n arbitrary: st s)
  case 0
  then show ?case by simp
next
  case (Suc n)
  have "process_event env usr st JNull = (emit (Validate JNull) st, Skipped)"
    by (simp add: process_event_def validateEventData_def)
  then show ?case using Suc [of "emit (Validate JNull) st" "Suc s"]
    by (simp add: emit_def replicate_app_Cons_same)
qed

text \<open>
  C10. The first effect of the handler is the 202 response with the message
  \<^verbatim>\<open>Events received\<close>; everything else it does comes after it in the trace and sends
  no second response. A body that is not an array, or an empty array, gets the same
  response and nothing else: no counter, no write, no job.
\<close>

theorem acknowledged_before_processing:
  "(\<exists>rest. st_trace (fst (processEvents env req st))
        = st_trace st @ SendResponse 202 ''Events received'' (now (env_js env)) # rest
      \<and> list_all (\<lambda>a. \<not> is_response a) rest)
   \<and> ((\<forall>evs. body req \<noteq> JArr evs) \<or> body req = JArr [] \<longrightarrow>
        processEvents env req st
          = (emit (SendResponse 202 ''Events received'' (now (env_js env))) st, None))"
  using processEvents_ack_first processEvents_discards by blast

theorem acknowledged_before_processing_witness:
  "(\<forall>evs. body (sample_request (JStr ''not an array'')) \<noteq> JArr evs)
   \<and> processEvents sample_ingest_env (sample_request (JStr ''not an array'')) sample_state
       = (sample_state\<lparr> st_trace := [SendResponse 202 ''Events received'' 1750000000000] \<rparr>, None)
   \<and> body (sample_request (JArr [])) = JArr []
   \<and> processEvents sample_ingest_env (sample_request (JArr [])) sample_state
       = (sample_state\<lparr> st_trace := [SendResponse 202 ''Events received'' 1750000000000] \<rparr>, None)
   \<and> (\<exists>rest. st_trace (fst (processEvents sample_ingest_env
                 (sample_request (JArr [sample_record ''trk_1'' ''S1'' ''scroll'' JNull])) sample_state))
        = SendResponse 202 ''Events received'' 1750000000000 # rest
      \<and> list_all (\<lambda>a. \<not> is_response a) rest)"
  using acknowledged_before_processing [of sample_ingest_env "sample_request (JStr ''not an array'')" sample_state]
    acknowledged_before_processing [of sample_ingest_env "sample_request (JArr [])" sample_state]
    acknowledged_before_processing [of sample_ingest_env
      "sample_request (JArr [sample_record ''trk_1'' ''S1'' ''scroll'' JNull])" sample_state]
  by (simp add: sample_request_def sample_state_def sample_ingest_env_def sample_js_env_def emit_def)

text \<open>
  C6. A batch of more than 50 records is handled as its first 50 records are: the same
  state, the same counters, the same response. The two counters add up to 50, so the
  records beyond the cap are in neither of them.
\<close>

theorem batch_truncated_to_cap:
  "50 < length evs \<longrightarrow>
     processEvents env (req\<lparr>body := JArr evs\<rparr>) st
       = processEvents env (req\<lparr>body := JArr (take 50 evs)\<rparr>) st
     \<and> (\<exists>p s. snd (processEvents env (req\<lparr>body := JArr evs\<rparr>) st) = Some (p, s) \<and> p + s = 50)
     \<and> (\<exists>rest. st_trace (fst (processEvents env (req\<lparr>body := JArr evs\<rparr>) st))
          = st_trace st @ SendResponse 202 ''Events received'' (now (env_js env)) # rest)"
  using processEvents_truncates [of evs env req st]
    processEvents_ack_first [of env "req\<lparr>body := JArr evs\<rparr>" st]
  by blast

theorem batch_truncated_to_cap_witness:
  "50 < length (replicate 51 JNull)
   \<and> processEvents sample_ingest_env ((sample_request JNull)\<lparr>body := JArr (replicate 51 JNull)\<rparr>) sample_state
       = processEvents sample_ingest_env
           ((sample_request JNull)\<lparr>body := JArr (take 50 (replicate 51 JNull))\<rparr>) sample_state
   \<and> (\<exists>p s. snd (processEvents sample_ingest_env
                  ((sample_request JNull)\<lparr>body := JArr (replicate 51 JNull)\<rparr>) sample_state) = Some (p, s)
            \<and> p + s = 50)"
proof -
  have L: "50 < length (replicate 51 JNull)" by simp
  from L batch_truncated_to_cap [of "replicate 51 JNull" sample_ingest_env "sample_request JNull" sample_state]
  show ?thesis by blast
qed

text \<open>
  A batch of 51 records none of which is valid: the counters are 0 processed and 50
  skipped, so the record beyond the cap is not counted.
\<close>

theorem excess_not_counted_counterexample:
  "snd (processEvents sample_ingest_env (sample_request (JArr (replicate 51 JNull))) sample_state)
     = Some (0, 50)"
  by (simp add: processEvents_def Let_def max_batch_def sample_request_def process_loop_nulls)

section \<open>Properties of the dispatcher\<close>





section \<open>Properties of the enricher\<close>

lemma getGeoInfo_lookup_failure:
  "\<not> skip_lookup a \<Longrightarrow> fetch (api @ a) = FetchThrows \<or> fetch (api @ a) = Response False b \<Longrightarrow>
   getGeoInfo fetch api a = unknown_geo"
  by (auto simp: getGeoInfo_def)

lemma getGeoInfo_local_iff_skip:
  "skip_lookup a \<Longrightarrow> getGeoInfo fetch api a = local_geo"
  by (simp add: getGeoInfo_def)

text \<open>
  C8. The address 172.217.0.1 is a public one, and the lookup gives the fixed Local
  result for it whatever the service would answer. The loopback addresses 127.0.0.2 and
  ::ffff:127.0.0.1 are looked up, and with a failing service give Unknown and not Local.
\<close>

theorem public_address_classified_local:
  "\<not> private_or_loopback 172 217 0 1
   \<and> (\<forall>fetch api. getGeoInfo fetch api ''172.217.0.1'' = local_geo)
   \<and> private_or_loopback 127 0 0 2
   \<and> (\<forall>api. getGeoInfo (\<lambda>u. FetchThrows) api ''127.0.0.2'' = unknown_geo)
   \<and> (\<forall>api. getGeoInfo (\<lambda>u. Response False None) api ''::ffff:127.0.0.1'' = unknown_geo)
   \<and> unknown_geo \<noteq> local_geo"
  by (simp add: getGeoInfo_def skip_lookup_def unknown_geo_def local_geo_def private_or_loopback_def)

end
